theory Spec2Isabelle
  imports Complex_Main
begin

section \<open>Values, errors and tensor operations\<close>

text \<open>
  The optimizers AdaBound, AdamP and AdaMod of the repository, embedded as functions on an
  explicit optimizer state. A tensor is the list of its elements in row-major order; where
  the code reads a shape (AdamP's projection) the shape is passed beside it. Arithmetic is
  exact arithmetic on the reals: rounding, overflow and the values inf and nan of the
  floating-point tensors are not represented, and a gradient is taken to have the shape of
  its variable, as the host framework guarantees. Where TensorFlow divides by zero or takes
  the root of a negative number its result is inf or nan; the model has HOL's total
  operators there, so every theorem about the values of a tensor has the hypotheses that
  keep the denominators from zero and the arguments of the roots from the negative
  numbers. The variables of AdaBound and AdaMod are taken to have TensorFlow's default
  float dtype, the dtype of the tensors their arithmetic mixes the variable with
  (\<^verbatim>\<open>self.base_lr\<close>, \<^verbatim>\<open>tf.sqrt(bias_correction2)\<close>); AdamP, whose code names dtypes,
  takes the dtype of its variable as an argument.

  Python's own arithmetic on scalars raises where TensorFlow's does not
  (\<^verbatim>\<open>1 / 0.0\<close>, \<^verbatim>\<open>math.sqrt(-1.0)\<close>), and a raise leaves the mutations made before it
  in place. So every method returns an outcome together with the state and the variable
  as they are when the method returns or raises.
\<close>

type_synonym tensor = "real list"

datatype error =
    RuntimeError \<comment> \<open>raised for a sparse gradient (the spec's UnsupportedGradientError)\<close>
  | ZeroDivisionError
  | ValueError \<comment> \<open>math domain error\<close>
  | TypeError \<comment> \<open>operands an operator or a conversion has no rule for\<close>
  | AttributeError \<comment> \<open>an attribute that only build creates\<close>
  | LookupError \<comment> \<open>KeyError or IndexError: a variable the optimizer was not built for\<close>
  | InvalidArgumentError \<comment> \<open>tf.reshape that cannot infer a dimension\<close>

datatype outcome = Returned | Raised error

text \<open>
  The gradients a host passes. \<^verbatim>\<open>tf.keras.backend.is_sparse\<close> is true of a
  \<^verbatim>\<open>tf.SparseTensor\<close> alone: the \<^verbatim>\<open>tf.IndexedSlices\<close> that TensorFlow gives as the
  gradient of a lookup is not one. The slices are held as the dense tensor TensorFlow
  converts them to.
\<close>

datatype gradient =
    Dense tensor
  | Sparse "(nat \<times> real) list" \<comment> \<open>a tf.SparseTensor: indices and values\<close>
  | IndexedSlices tensor

text \<open>Python's \<^verbatim>\<open>math.sqrt\<close> and \<^verbatim>\<open>/\<close> on Python numbers.\<close>

definition math_sqrt :: "real \<Rightarrow> error + real" where
  "math_sqrt x = (if x < 0 then Inl ValueError else Inr (sqrt x))"

definition py_div :: "real \<Rightarrow> real \<Rightarrow> error + real" where
  "py_div a b = (if b = 0 then Inl ZeroDivisionError else Inr (a / b))"

text \<open>TensorFlow's elementwise operations; a Python scalar broadcasts.\<close>

definition zeros_like :: "tensor \<Rightarrow> tensor" where
  "zeros_like x = map (\<lambda>_. 0) x"

definition scalar_mul :: "real \<Rightarrow> tensor \<Rightarrow> tensor" where
  "scalar_mul c x = map (\<lambda>a. c * a) x"

definition add_scalar :: "tensor \<Rightarrow> real \<Rightarrow> tensor" where
  "add_scalar x c = map (\<lambda>a. a + c) x"

definition mul_scalar :: "tensor \<Rightarrow> real \<Rightarrow> tensor" where
  "mul_scalar x c = map (\<lambda>a. a * c) x"

definition div_scalar :: "tensor \<Rightarrow> real \<Rightarrow> tensor" where
  "div_scalar x c = map (\<lambda>a. a / c) x"

definition tf_add :: "tensor \<Rightarrow> tensor \<Rightarrow> tensor" where
  "tf_add x y = map2 (+) x y"

definition tf_multiply :: "tensor \<Rightarrow> tensor \<Rightarrow> tensor" where
  "tf_multiply x y = map2 (*) x y"

definition tf_divide :: "tensor \<Rightarrow> tensor \<Rightarrow> tensor" where
  "tf_divide x y = map2 (/) x y"

definition tf_negative :: "tensor \<Rightarrow> tensor" where
  "tf_negative x = map uminus x"

definition tf_square :: "tensor \<Rightarrow> tensor" where
  "tf_square x = map (\<lambda>a. a * a) x"

definition tf_sqrt :: "tensor \<Rightarrow> tensor" where
  "tf_sqrt x = map sqrt x"

definition tf_abs :: "tensor \<Rightarrow> tensor" where
  "tf_abs x = map abs x"

definition tf_maximum :: "tensor \<Rightarrow> tensor \<Rightarrow> tensor" where
  "tf_maximum x y = map2 max x y"

definition tf_minimum :: "tensor \<Rightarrow> tensor \<Rightarrow> tensor" where
  "tf_minimum x y = map2 min x y"

definition tf_fill :: "nat \<Rightarrow> real \<Rightarrow> tensor" where
  "tf_fill n c = replicate n c"

definition tf_reduce_sum :: "tensor \<Rightarrow> real" where
  "tf_reduce_sum x = sum_list x"

text \<open>
  \<^verbatim>\<open>tf.clip_by_value(t, lo, hi)\<close> takes the minimum with \<open>hi\<close> first and the maximum
  with \<open>lo\<close> after it.
\<close>

definition clip_value :: "real \<Rightarrow> real \<Rightarrow> real \<Rightarrow> real" where
  "clip_value a lo hi = max (min a hi) lo"

definition tf_clip_by_value :: "tensor \<Rightarrow> real \<Rightarrow> real \<Rightarrow> tensor" where
  "tf_clip_by_value x lo hi = map (\<lambda>a. clip_value a lo hi) x"

section \<open>The optimizer base class\<close>

text \<open>
  The attributes of the base class \<^verbatim>\<open>optimizer.Optimizer\<close> that the three classes
  read: the flag \<^verbatim>\<open>built\<close>, the counter \<^verbatim>\<open>iterations\<close> (the host advances it once for
  every application of the gradients; no method of the three classes writes it), the
  learning rate given to the constructor and the weight decay. A variable is named by
  the index \<^verbatim>\<open>_get_variable_index\<close> gives it, its position in the list passed to build.
\<close>

record Optimizer =
  built :: bool
  iterations :: nat
  learning_rate :: real
  weight_decay :: real

text \<open>
  Modelled from the spec: the base class's \<^verbatim>\<open>build\<close>, which is not among the sources.
  It takes the optimizer from Uninitialized to Built.
\<close>

definition Optimizer_build :: "'a Optimizer_scheme \<Rightarrow> tensor list \<Rightarrow> 'a Optimizer_scheme" where
  "Optimizer_build self var_list = self\<lparr>built := True\<rparr>"

text \<open>
  Modelled from the spec: the base class's \<^verbatim>\<open>add_variable_from_reference\<close>, which is
  not among the sources. The new slot has the shape of the variable and holds zeros.
\<close>

definition add_variable_from_reference :: "tensor \<Rightarrow> tensor" where
  "add_variable_from_reference reference_variable = zeros_like reference_variable"

section \<open>AdaBound\<close>

record AdaBound = Optimizer +
  beta1 :: real
  beta2 :: real
  epsilon :: real
  final_lr :: real
  gamma :: real
  amsbound :: bool
  exp_avg :: "tensor list"
  exp_avg_sq :: "tensor list"
  max_exp_avg_sq :: "tensor list option" \<comment> \<open>None: the attribute does not exist\<close>
  base_lr :: real \<comment> \<open>the value of the learning-rate object that line 64 names\<close>
  step :: "nat list"

text \<open>
  The constructor; the lists and \<open>base_lr\<close> have no value before build. The step
  counters are Python integers that start at 0 and are only ever incremented.
\<close>

definition AdaBound_init ::
  "real \<Rightarrow> real \<Rightarrow> real \<Rightarrow> real \<Rightarrow> real \<Rightarrow> real \<Rightarrow> real \<Rightarrow> bool \<Rightarrow> AdaBound" where
  "AdaBound_init lr b1 b2 eps wd flr gam ams =
     \<lparr>built = False, iterations = 0, learning_rate = lr, weight_decay = wd,
      beta1 = b1, beta2 = b2, epsilon = eps, final_lr = flr, gamma = gam, amsbound = ams,
      exp_avg = [], exp_avg_sq = [], max_exp_avg_sq = None, base_lr = 0, step = []\<rparr>"

text \<open>One round of the loop of build: the appends for one variable.\<close>

definition AdaBound_build_var :: "tensor \<Rightarrow> AdaBound \<Rightarrow> AdaBound" where
  "AdaBound_build_var var self =
     (let self = self\<lparr>exp_avg := exp_avg self @ [add_variable_from_reference var]\<rparr>;
          self = self\<lparr>exp_avg_sq := exp_avg_sq self @ [add_variable_from_reference var]\<rparr>;
          self = (if amsbound self
                  then self\<lparr>max_exp_avg_sq :=
                         map_option (\<lambda>l. l @ [add_variable_from_reference var])
                           (max_exp_avg_sq self)\<rparr>
                  else self)
      in self\<lparr>step := step self @ [0]\<rparr>)"

text \<open>
  build. Line 64 gives the name \<^verbatim>\<open>base_lr\<close> to the learning-rate object of the base
  class, it does not copy it. No method of the class assigns to that object, so the
  field \<open>base_lr\<close> holds the value that line 119 reads; a host that assigns a new
  learning rate to the object changes both.
\<close>

definition AdaBound_build :: "AdaBound \<Rightarrow> tensor list \<Rightarrow> AdaBound" where
  "AdaBound_build self var_list =
     (if built self then self
      else
        let self = Optimizer_build self var_list;
            self = self\<lparr>exp_avg := []\<rparr>;
            self = self\<lparr>exp_avg_sq := []\<rparr>;
            self = (if amsbound self then self\<lparr>max_exp_avg_sq := Some []\<rparr> else self);
            self = self\<lparr>base_lr := learning_rate self\<rparr>;
            self = self\<lparr>step := []\<rparr>
        in fold AdaBound_build_var var_list self)"

text \<open>The bounds on the learning rate, lines 119 to 121 of adabound.py.\<close>

definition lower_bound :: "real \<Rightarrow> real \<Rightarrow> nat \<Rightarrow> error + real" where
  "lower_bound final_lr' gam t =
     (case py_div 1 (gam * real t + 1) of
        Inl e \<Rightarrow> Inl e
      | Inr q \<Rightarrow> Inr (final_lr' * (1 - q)))"

definition upper_bound :: "real \<Rightarrow> real \<Rightarrow> nat \<Rightarrow> error + real" where
  "upper_bound final_lr' gam t =
     (case py_div 1 (gam * real t) of
        Inl e \<Rightarrow> Inl e
      | Inr q \<Rightarrow> Inr (final_lr' * (1 + q)))"

text \<open>
  The lookups of lines 92 to 97: they raise, before anything is written, for an optimizer
  that is not built or a variable it has no slot for.
\<close>

definition AdaBound_lookup :: "AdaBound \<Rightarrow> nat \<Rightarrow> error option" where
  "AdaBound_lookup self i =
     (if \<not> built self then Some AttributeError
      else if \<not> (i < length (exp_avg self) \<and> i < length (exp_avg_sq self)) then Some LookupError
      else if amsbound self \<and> (case max_exp_avg_sq self of None \<Rightarrow> True | Some mx \<Rightarrow> False)
        then Some AttributeError
      else if amsbound self \<and> (case max_exp_avg_sq self of None \<Rightarrow> False | Some mx \<Rightarrow> \<not> i < length mx)
        then Some LookupError
      else if \<not> i < length (step self) then Some LookupError
      else None)"

text \<open>
  The denominator, lines 105 to 111, with the assignment of the amsbound branch. With
  amsbound and no \<open>max_exp_avg_sq\<close> the lookup of line 95 has raised before.
\<close>

definition AdaBound_denom :: "AdaBound \<Rightarrow> nat \<Rightarrow> AdaBound \<times> tensor" where
  "AdaBound_denom self i =
     (if amsbound self then
        (case max_exp_avg_sq self of
           None \<Rightarrow> (self, add_scalar (tf_sqrt (exp_avg_sq self ! i)) (epsilon self))
         | Some mx \<Rightarrow>
             let m = tf_maximum (mx ! i) (exp_avg_sq self ! i)
             in (self\<lparr>max_exp_avg_sq := Some (mx[i := m])\<rparr>,
                 add_scalar (tf_sqrt m) (epsilon self)))
      else (self, add_scalar (tf_sqrt (exp_avg_sq self ! i)) (epsilon self)))"

text \<open>Line 97: the step counter of variable \<open>i\<close>.\<close>

definition AdaBound_count :: "AdaBound \<Rightarrow> nat \<Rightarrow> AdaBound" where
  "AdaBound_count self i = self\<lparr>step := (step self)[i := step self ! i + 1]\<rparr>"

text \<open>Lines 97 to 104: the step counter and the two moments of variable \<open>i\<close>.\<close>

definition AdaBound_moments :: "AdaBound \<Rightarrow> tensor \<Rightarrow> nat \<Rightarrow> tensor \<Rightarrow> AdaBound" where
  "AdaBound_moments self g0 i variable =
     (let self = AdaBound_count self i;
          g = (if weight_decay self \<noteq> 0
               then tf_add g0 (scalar_mul (weight_decay self) variable) else g0);
          m = tf_add (scalar_mul (beta1 self) (exp_avg self ! i))
                     (scalar_mul (1 - beta1 self) g);
          self = self\<lparr>exp_avg := (exp_avg self)[i := m]\<rparr>;
          v = tf_add (scalar_mul (beta2 self) (exp_avg_sq self ! i))
                     (scalar_mul (1 - beta2 self) (tf_square g))
      in self\<lparr>exp_avg_sq := (exp_avg_sq self)[i := v]\<rparr>)"

text \<open>Lines 97 to 127 for the dense tensor \<open>g0\<close>, after the lookups.\<close>

definition AdaBound_dense_step ::
  "AdaBound \<Rightarrow> tensor \<Rightarrow> nat \<Rightarrow> tensor \<Rightarrow> real \<Rightarrow> outcome \<times> AdaBound \<times> tensor" where
  "AdaBound_dense_step self g0 i variable lr =
     (let self = AdaBound_moments self g0 i variable;
          (self, denom) = AdaBound_denom self i;
          bias_correction1 = 1 - beta1 self ^ (step self ! i);
          bias_correction2 = 1 - beta2 self ^ (step self ! i)
      in (case math_sqrt bias_correction2 of
            Inl e \<Rightarrow> (Raised e, self, variable)
          | Inr r \<Rightarrow>
             let step_size = lr * r / bias_correction1;
                 final_lr' = final_lr self * lr / base_lr self
             in (case lower_bound final_lr' (gamma self) (step self ! i) of
                   Inl e \<Rightarrow> (Raised e, self, variable)
                 | Inr lower \<Rightarrow>
                    (case upper_bound final_lr' (gamma self) (step self ! i) of
                       Inl e \<Rightarrow> (Raised e, self, variable)
                     | Inr upper \<Rightarrow>
                        let step_size = tf_fill (length denom) step_size;
                            step_size = tf_divide step_size denom;
                            step_size = tf_clip_by_value step_size lower upper;
                            step_size = tf_multiply step_size (exp_avg self ! i)
                        in (Returned, self, tf_add variable (tf_negative step_size))))))"

text \<open>
  update_step. A \<^verbatim>\<open>tf.IndexedSlices\<close> passes the test of line 88. With a weight decay,
  line 100 adds a tensor to the slices, which TensorFlow answers with the dense tensor
  they convert to, and the call goes on as for a dense gradient. Without one, line 103
  multiplies the slices by a Python float, for which there is no rule: the call raises
  TypeError after line 97 has counted it.
\<close>

definition AdaBound_update_step ::
  "AdaBound \<Rightarrow> gradient \<Rightarrow> nat \<Rightarrow> tensor \<Rightarrow> real \<Rightarrow> outcome \<times> AdaBound \<times> tensor" where
  "AdaBound_update_step self gradient i variable lr =
     (case gradient of
        Sparse _ \<Rightarrow> (Raised RuntimeError, self, variable)
      | Dense g0 \<Rightarrow>
         (case AdaBound_lookup self i of
            Some e \<Rightarrow> (Raised e, self, variable)
          | None \<Rightarrow> AdaBound_dense_step self g0 i variable lr)
      | IndexedSlices g0 \<Rightarrow>
         (case AdaBound_lookup self i of
            Some e \<Rightarrow> (Raised e, self, variable)
          | None \<Rightarrow>
             if weight_decay self \<noteq> 0 then AdaBound_dense_step self g0 i variable lr
             else (Raised TypeError, AdaBound_count self i, variable)))"

text \<open>
  The mapping get_config returns. \<open>base_config\<close> is the mapping of the base class's
  get_config, which the method updates with its own fields. The list \<^verbatim>\<open>self.step\<close>,
  whose length AdaBound and AdamP read, exists once the optimizer is built.
\<close>

datatype config_value =
    Cfg_float real
  | Cfg_bool bool
  | Cfg_int nat
  | Cfg_list "config_value list"

type_synonym config = "string \<rightharpoonup> config_value"

definition AdaBound_get_config :: "AdaBound \<Rightarrow> config \<Rightarrow> error + config" where
  "AdaBound_get_config self base_config =
     (if \<not> built self then Inl AttributeError
      else Inr (base_config
       (''beta1'' \<mapsto> Cfg_float (beta1 self),
        ''beta2'' \<mapsto> Cfg_float (beta2 self),
        ''epsilon'' \<mapsto> Cfg_float (epsilon self),
        ''final_lr'' \<mapsto> Cfg_float (final_lr self),
        ''gamma'' \<mapsto> Cfg_float (gamma self),
        ''amsbound'' \<mapsto> Cfg_bool (amsbound self),
        ''step'' \<mapsto> Cfg_list (map (\<lambda>_. Cfg_int (iterations self)) [0..<length (step self)]))))"

text \<open>
  \<^verbatim>\<open>__setstate__\<close>: the restored mapping is a list of attribute assignments, which
  \<^verbatim>\<open>__dict__.update\<close> carries out one by one; attributes it does not name keep their
  values.
\<close>

datatype AdaBound_attr =
    Set_built bool
  | Set_iterations nat
  | Set_learning_rate real
  | Set_weight_decay real
  | Set_beta1 real
  | Set_beta2 real
  | Set_epsilon real
  | Set_final_lr real
  | Set_gamma real
  | Set_amsbound bool
  | Set_exp_avg "tensor list"
  | Set_exp_avg_sq "tensor list"
  | Set_max_exp_avg_sq "tensor list"
  | Set_base_lr real
  | Set_step "nat list"

fun dict_update1 :: "AdaBound_attr \<Rightarrow> AdaBound \<Rightarrow> AdaBound" where
  "dict_update1 (Set_built x) self = self\<lparr>built := x\<rparr>"
| "dict_update1 (Set_iterations x) self = self\<lparr>iterations := x\<rparr>"
| "dict_update1 (Set_learning_rate x) self = self\<lparr>learning_rate := x\<rparr>"
| "dict_update1 (Set_weight_decay x) self = self\<lparr>weight_decay := x\<rparr>"
| "dict_update1 (Set_beta1 x) self = self\<lparr>beta1 := x\<rparr>"
| "dict_update1 (Set_beta2 x) self = self\<lparr>beta2 := x\<rparr>"
| "dict_update1 (Set_epsilon x) self = self\<lparr>epsilon := x\<rparr>"
| "dict_update1 (Set_final_lr x) self = self\<lparr>final_lr := x\<rparr>"
| "dict_update1 (Set_gamma x) self = self\<lparr>gamma := x\<rparr>"
| "dict_update1 (Set_amsbound x) self = self\<lparr>amsbound := x\<rparr>"
| "dict_update1 (Set_exp_avg x) self = self\<lparr>exp_avg := x\<rparr>"
| "dict_update1 (Set_exp_avg_sq x) self = self\<lparr>exp_avg_sq := x\<rparr>"
| "dict_update1 (Set_max_exp_avg_sq x) self = self\<lparr>max_exp_avg_sq := Some x\<rparr>"
| "dict_update1 (Set_base_lr x) self = self\<lparr>base_lr := x\<rparr>"
| "dict_update1 (Set_step x) self = self\<lparr>step := x\<rparr>"

definition dict_update :: "AdaBound \<Rightarrow> AdaBound_attr list \<Rightarrow> AdaBound" where
  "dict_update self state = fold dict_update1 state self"

definition AdaBound_setstate :: "AdaBound \<Rightarrow> AdaBound_attr list \<Rightarrow> AdaBound" where
  "AdaBound_setstate self state =
     (let self = dict_update self state
      in self\<lparr>amsbound := False\<rparr>)"

text \<open>
  A host that calls update_step again and again, whatever the calls return or raise:
  the state and the variable each call leaves are the next call's.
\<close>

fun AdaBound_run :: "AdaBound \<Rightarrow> (gradient \<times> nat \<times> tensor \<times> real) list \<Rightarrow> AdaBound" where
  "AdaBound_run self [] = self"
| "AdaBound_run self ((g, i, variable, lr) # calls) =
     AdaBound_run (fst (snd (AdaBound_update_step self g i variable lr))) calls"

text \<open>The "step" field of a mapping get_config returned.\<close>

definition step_field :: "error + config \<Rightarrow> config_value option" where
  "step_field r = (case r of Inl e \<Rightarrow> None | Inr config \<Rightarrow> config ''step'')"

section \<open>AdamP\<close>

datatype dtype = int32 | int64 | float16 | float_other

text \<open>
  A Python float that meets a tensor in an operator is converted to the dtype of the
  tensor. An integer dtype refuses a float. What a floating dtype makes of it is the
  float itself, rounding and overflow aside as everywhere, but for float16 a float of at
  most \<open>2 ^ -25\<close>, half the smallest float16, becomes 0: \<^verbatim>\<open>1e-8\<close>, the default of
  epsilon, does. The other float dtypes are taken to hold the floats they are given, as
  float32 holds the defaults of the hyperparameters and their squares.
\<close>

definition is_integer :: "dtype \<Rightarrow> bool" where
  "is_integer dt = (case dt of int32 \<Rightarrow> True | int64 \<Rightarrow> True | float16 \<Rightarrow> False
                    | float_other \<Rightarrow> False)"

definition as_float :: "dtype \<Rightarrow> real \<Rightarrow> real" where
  "as_float dt x =
     (case dt of
        float16 \<Rightarrow> (if \<bar>x\<bar> \<le> 1 / 2 ^ 25 then 0 else x)
      | int32 \<Rightarrow> x
      | int64 \<Rightarrow> x
      | float_other \<Rightarrow> x)"

definition convert_to_tensor :: "dtype \<Rightarrow> real \<Rightarrow> error + real" where
  "convert_to_tensor dt x = (if is_integer dt then Inl TypeError else Inr (as_float dt x))"

text \<open>The upper limit \<^verbatim>\<open>clip\<close> chooses from the tensor's dtype.\<close>

definition clip_max :: "dtype \<Rightarrow> real" where
  "clip_max dt =
     (case dt of
        int32 \<Rightarrow> (2 ^ 31 - 1) - 2 ^ 7
      | int64 \<Rightarrow> (2 ^ 63 - 1) - 2 ^ 39
      | float16 \<Rightarrow> 65504
      | float_other \<Rightarrow> 2 ^ 128 - 2 ^ 104)"

text \<open>
  \<^verbatim>\<open>clip\<close>: the floor and the limit are Python floats, which \<^verbatim>\<open>tf.clip_by_value\<close>
  converts to the dtype of the tensor.
\<close>

definition clip :: "dtype \<Rightarrow> tensor \<Rightarrow> real \<Rightarrow> error + tensor" where
  "clip dt x mn =
     (case convert_to_tensor dt mn of
        Inl e \<Rightarrow> Inl e
      | Inr mn' \<Rightarrow> Inr (tf_clip_by_value x mn' (as_float dt (clip_max dt))))"

text \<open>
  A view is a tensor of two dimensions, the list of its rows. The similarity is taken
  along axis 1, one value for each row.
\<close>

definition cosine_n12 :: "dtype \<Rightarrow> tensor list \<Rightarrow> tensor list \<Rightarrow> real \<Rightarrow> error + tensor" where
  "cosine_n12 dt x1 x2 eps =
     (let w1 = map (\<lambda>a. tf_reduce_sum (tf_multiply a a)) x1;
          w2 = map (\<lambda>b. tf_reduce_sum (tf_multiply b b)) x2
      in (case clip dt (tf_multiply w1 w2) (eps * eps) of
            Inl e \<Rightarrow> Inl e
          | Inr c \<Rightarrow> Inr (tf_sqrt c)))"

definition cosine_similarity ::
  "dtype \<Rightarrow> tensor list \<Rightarrow> tensor list \<Rightarrow> real \<Rightarrow> error + tensor" where
  "cosine_similarity dt x1 x2 eps =
     (let w12 = map2 (\<lambda>a b. tf_reduce_sum (tf_multiply a b)) x1 x2
      in (case cosine_n12 dt x1 x2 eps of
            Inl e \<Rightarrow> Inl e
          | Inr n12 \<Rightarrow>
             let cos_sim = tf_divide w12 n12
             in Inr cos_sim))"

text \<open>
  \<^verbatim>\<open>tf.reshape(x, (n, -1))\<close>: \<open>n\<close> rows of equal width, refused when \<open>n\<close> does not
  divide the number of elements. A variable with no rows (\<open>n = 0\<close>), for which
  TensorFlow takes the width from the other dimensions, is outside the model: it is
  refused too, and no theorem below speaks of it.
\<close>

definition reshape_rows :: "nat \<Rightarrow> tensor \<Rightarrow> error + tensor list" where
  "reshape_rows n x =
     (if n = 0 \<or> length x mod n \<noteq> 0 then Inl InvalidArgumentError
      else Inr (map (\<lambda>r. take (length x div n) (drop (r * (length x div n)) x)) [0..<n]))"

datatype view_func = channel_view | layer_view

definition apply_view :: "view_func \<Rightarrow> nat list \<Rightarrow> tensor \<Rightarrow> error + tensor list" where
  "apply_view vf shape x =
     (case vf of
        channel_view \<Rightarrow> (case shape of [] \<Rightarrow> Inl LookupError | n # _ \<Rightarrow> reshape_rows n x)
      | layer_view \<Rightarrow> reshape_rows 1 x)"

definition view_width :: "tensor list \<Rightarrow> nat" where
  "view_width v = (case v of [] \<Rightarrow> 0 | r # _ \<Rightarrow> length r)"

text \<open>\<^verbatim>\<open>tf.reduce_max(c) < t\<close>; the maximum of no element is minus infinity.\<close>

definition reduce_max_less :: "tensor \<Rightarrow> real \<Rightarrow> bool" where
  "reduce_max_less c t = (case c of [] \<Rightarrow> True | x # xs \<Rightarrow> fold max xs x < t)"

text \<open>
  The condition of line 57 for one view. The threshold is a Python float, converted to
  the dtype of the similarities it is compared with.
\<close>

definition view_test ::
  "view_func \<Rightarrow> dtype \<Rightarrow> nat list \<Rightarrow> tensor \<Rightarrow> tensor \<Rightarrow> real \<Rightarrow> real \<Rightarrow> error + bool" where
  "view_test vf dt shape p grad delta eps =
     (case apply_view vf shape p of
        Inl e \<Rightarrow> Inl e
      | Inr param_view \<Rightarrow>
         (case apply_view vf shape grad of
            Inl e \<Rightarrow> Inl e
          | Inr grad_view \<Rightarrow>
             (case cosine_similarity dt grad_view param_view eps of
                Inl e \<Rightarrow> Inl e
              | Inr cos_sim \<Rightarrow>
                 let cosine_sim = tf_abs cos_sim
                 in (case py_div delta (sqrt (real (view_width param_view))) of
                       Inl e \<Rightarrow> Inl e
                     | Inr threshold \<Rightarrow>
                        Inr (reduce_max_less cosine_sim (as_float dt threshold))))))"

text \<open>
  Lines 58 and 59 for one view: a value for each row of the view, reshaped to
  \<open>expand_size\<close>, broadcasts over the elements of that row. \<open>unit_rows\<close> is \<open>p_n\<close>, the
  rows of the parameter divided by their norms plus \<open>eps\<close>.
\<close>

definition broadcast_rows :: "(tensor \<Rightarrow> real \<Rightarrow> tensor) \<Rightarrow> tensor list \<Rightarrow> tensor \<Rightarrow> tensor" where
  "broadcast_rows f rows xs = concat (map2 f rows xs)"

definition tf_norm :: "tensor list \<Rightarrow> tensor" where
  "tf_norm v = map (\<lambda>r. sqrt (tf_reduce_sum (tf_square r))) v"

definition norm_eps :: "dtype \<Rightarrow> tensor list \<Rightarrow> real \<Rightarrow> tensor" where
  "norm_eps dt param_view eps = add_scalar (tf_norm param_view) (as_float dt eps)"

definition unit_rows :: "dtype \<Rightarrow> tensor list \<Rightarrow> real \<Rightarrow> tensor" where
  "unit_rows dt param_view eps =
     broadcast_rows div_scalar param_view (norm_eps dt param_view eps)"

definition project ::
  "dtype \<Rightarrow> view_func \<Rightarrow> nat list \<Rightarrow> tensor \<Rightarrow> tensor \<Rightarrow> real \<Rightarrow> error + tensor" where
  "project dt vf shape p perturb eps =
     (case apply_view vf shape p of
        Inl e \<Rightarrow> Inl e
      | Inr param_view \<Rightarrow>
         let p_n = unit_rows dt param_view eps
         in (case apply_view vf shape (tf_multiply p_n perturb) of
               Inl e \<Rightarrow> Inl e
             | Inr prod_view \<Rightarrow>
                (case apply_view vf shape p_n of
                   Inl e \<Rightarrow> Inl e
                 | Inr p_n_view \<Rightarrow>
                    Inr (tf_add perturb
                          (tf_negative
                            (broadcast_rows (\<lambda>r d. scalar_mul d r) p_n_view
                               (map tf_reduce_sum prod_view)))))))"

fun projection_loop ::
  "view_func list \<Rightarrow> dtype \<Rightarrow> nat list \<Rightarrow> tensor \<Rightarrow> tensor \<Rightarrow> tensor \<Rightarrow> real \<Rightarrow> real \<Rightarrow> real \<Rightarrow>
   real \<Rightarrow> error + tensor \<times> real" where
  "projection_loop [] dt shape p grad perturb delta wd_ratio eps wd = Inr (perturb, wd)"
| "projection_loop (vf # vfs) dt shape p grad perturb delta wd_ratio eps wd =
     (case view_test vf dt shape p grad delta eps of
        Inl e \<Rightarrow> Inl e
      | Inr True \<Rightarrow>
         (case project dt vf shape p perturb eps of
            Inl e \<Rightarrow> Inl e
          | Inr perturb' \<Rightarrow> Inr (perturb', wd_ratio))
      | Inr False \<Rightarrow> projection_loop vfs dt shape p grad perturb delta wd_ratio eps wd)"

definition projection ::
  "dtype \<Rightarrow> nat list \<Rightarrow> tensor \<Rightarrow> tensor \<Rightarrow> tensor \<Rightarrow> real \<Rightarrow> real \<Rightarrow> real \<Rightarrow> error + tensor \<times> real" where
  "projection dt shape p grad perturb delta wd_ratio eps =
     projection_loop [channel_view, layer_view] dt shape p grad perturb delta wd_ratio eps 1"

record AdamP = Optimizer +
  beta1 :: real
  beta2 :: real
  epsilon :: real
  delta :: real
  wd_ratio :: real
  nesterov :: bool
  exp_avg :: "tensor list"
  exp_avg_sq :: "tensor list"
  step :: "nat list"

definition AdamP_init ::
  "real \<Rightarrow> real \<Rightarrow> real \<Rightarrow> real \<Rightarrow> real \<Rightarrow> real \<Rightarrow> real \<Rightarrow> bool \<Rightarrow> AdamP" where
  "AdamP_init lr b1 b2 eps wd dl wdr nest =
     \<lparr>built = False, iterations = 0, learning_rate = lr, weight_decay = wd,
      beta1 = b1, beta2 = b2, epsilon = eps, delta = dl, wd_ratio = wdr, nesterov = nest,
      exp_avg = [], exp_avg_sq = [], step = []\<rparr>"

definition AdamP_build_var :: "tensor \<Rightarrow> AdamP \<Rightarrow> AdamP" where
  "AdamP_build_var var self =
     (let self = self\<lparr>exp_avg := exp_avg self @ [add_variable_from_reference var]\<rparr>;
          self = self\<lparr>exp_avg_sq := exp_avg_sq self @ [add_variable_from_reference var]\<rparr>
      in self\<lparr>step := step self @ [0]\<rparr>)"

definition AdamP_build :: "AdamP \<Rightarrow> tensor list \<Rightarrow> AdamP" where
  "AdamP_build self var_list =
     (if built self then self
      else
        let self = Optimizer_build self var_list;
            self = self\<lparr>exp_avg := []\<rparr>;
            self = self\<lparr>exp_avg_sq := []\<rparr>;
            self = self\<lparr>step := []\<rparr>
        in fold AdamP_build_var var_list self)"

definition AdamP_lookup :: "AdamP \<Rightarrow> nat \<Rightarrow> error option" where
  "AdamP_lookup self i =
     (if \<not> built self then Some AttributeError
      else if \<not> (i < length (exp_avg self) \<and> i < length (exp_avg_sq self)) then Some LookupError
      else if \<not> i < length (step self) then Some LookupError
      else None)"

text \<open>
  The denominator of line 141; \<open>r\<close> is \<^verbatim>\<open>math.sqrt(bias_correction2)\<close>. \<open>r\<close> and
  \<open>eps\<close> are Python floats that meet a tensor.
\<close>

definition AdamP_denom :: "dtype \<Rightarrow> tensor \<Rightarrow> real \<Rightarrow> real \<Rightarrow> tensor" where
  "AdamP_denom dt v r eps = add_scalar (div_scalar (tf_sqrt v) (as_float dt r)) (as_float dt eps)"

text \<open>Line 134: the step counter of variable \<open>i\<close>.\<close>

definition AdamP_count :: "AdamP \<Rightarrow> nat \<Rightarrow> AdamP" where
  "AdamP_count self i = self\<lparr>step := (step self)[i := step self ! i + 1]\<rparr>"

text \<open>
  The counter and the moments are written in lines 134 to 139; the bias corrections
  between them are pure.
\<close>

definition AdamP_moments :: "dtype \<Rightarrow> AdamP \<Rightarrow> tensor \<Rightarrow> nat \<Rightarrow> AdamP" where
  "AdamP_moments dt self gradient i =
     (let self = AdamP_count self i;
          m = tf_add (mul_scalar (exp_avg self ! i) (as_float dt (beta1 self)))
                     (mul_scalar gradient (as_float dt (1 - beta1 self)));
          self = self\<lparr>exp_avg := (exp_avg self)[i := m]\<rparr>;
          v = tf_add (mul_scalar (exp_avg_sq self ! i) (as_float dt (beta2 self)))
                     (mul_scalar (tf_multiply gradient gradient) (as_float dt (1 - beta2 self)))
      in self\<lparr>exp_avg_sq := (exp_avg_sq self)[i := v]\<rparr>)"

text \<open>Lines 144 to 147: the perturbation, the division by the denominator.\<close>

definition AdamP_perturb :: "dtype \<Rightarrow> AdamP \<Rightarrow> tensor \<Rightarrow> nat \<Rightarrow> tensor \<Rightarrow> tensor" where
  "AdamP_perturb dt self gradient i denom =
     (if nesterov self
      then tf_divide (tf_add (scalar_mul (as_float dt (beta1 self)) (exp_avg self ! i))
                             (scalar_mul (as_float dt (1 - beta1 self)) gradient)) denom
      else tf_divide (exp_avg self ! i) denom)"

text \<open>
  AdamP's update_step has no test for a sparse gradient; the gradient is the dense
  tensor its arithmetic needs, of the dtype of its variable. \<open>dt\<close> and \<open>shape\<close> are the
  variable's dtype and shape. For an integer dtype, line 138 multiplies a tensor of that
  dtype by a Python float, which TensorFlow refuses with TypeError, after line 134 has
  counted the call.
\<close>

definition AdamP_update_step ::
  "AdamP \<Rightarrow> dtype \<Rightarrow> tensor \<Rightarrow> nat \<Rightarrow> nat list \<Rightarrow> tensor \<Rightarrow> real \<Rightarrow> outcome \<times> AdamP \<times> tensor" where
  "AdamP_update_step self dt gradient i shape variable lr0 =
     (case AdamP_lookup self i of
        Some e \<Rightarrow> (Raised e, self, variable)
      | None \<Rightarrow>
         if is_integer dt then (Raised TypeError, AdamP_count self i, variable)
         else
           let lr = as_float dt lr0;
               self = AdamP_moments dt self gradient i;
               bias_correction1 = 1 - beta1 self ^ (step self ! i);
               bias_correction2 = 1 - beta2 self ^ (step self ! i)
           in (case math_sqrt bias_correction2 of
                 Inl e \<Rightarrow> (Raised e, self, variable)
               | Inr r \<Rightarrow>
                  let denom = AdamP_denom dt (exp_avg_sq self ! i) r (epsilon self);
                      step_size = lr / as_float dt bias_correction1;
                      perturb = AdamP_perturb dt self gradient i denom
                  in (case (if length shape > 1
                            then projection dt shape variable gradient perturb
                                   (delta self) (wd_ratio self) (epsilon self)
                            else Inr (perturb, 1)) of
                        Inl e \<Rightarrow> (Raised e, self, variable)
                      | Inr (perturb, wd_ratio') \<Rightarrow>
                         let variable =
                               (if weight_decay self > 0
                                then mul_scalar variable
                                       (1 - lr * as_float dt (weight_decay self)
                                              * as_float dt wd_ratio')
                                else variable);
                             variable = tf_add variable (mul_scalar perturb (- step_size))
                         in (Returned, self, variable))))"

definition AdamP_get_config :: "AdamP \<Rightarrow> config \<Rightarrow> error + config" where
  "AdamP_get_config self base_config =
     (if \<not> built self then Inl AttributeError
      else Inr (base_config
       (''beta1'' \<mapsto> Cfg_float (beta1 self),
        ''beta2'' \<mapsto> Cfg_float (beta2 self),
        ''epsilon'' \<mapsto> Cfg_float (epsilon self),
        ''delta'' \<mapsto> Cfg_float (delta self),
        ''wd_ratio'' \<mapsto> Cfg_float (wd_ratio self),
        ''nesterov'' \<mapsto> Cfg_bool (nesterov self),
        ''step'' \<mapsto> Cfg_list (map (\<lambda>_. Cfg_int (iterations self)) [0..<length (step self)]))))"

section \<open>AdaMod\<close>

text \<open>
  The lists of AdaMod are \<^verbatim>\<open>multiprocessing\<close> manager lists; the processes behind them
  are not modelled, a manager list is the list of the tensors it holds. Reading a slot of
  a manager list gives a copy of the stored tensor, and the assignments of update_step
  write to the copies: the stored slots keep what build put there. The counter
  \<^verbatim>\<open>step\<close> is a plain attribute and is written.
\<close>

definition manager_list :: "'a list \<Rightarrow> 'a list" where
  "manager_list xs = xs"

record AdaMod = Optimizer +
  beta1 :: real
  beta2 :: real
  beta3 :: real
  epsilon :: real
  exp_avg :: "tensor list"
  exp_avg_sq :: "tensor list"
  exp_avg_lr :: "tensor list"
  step :: nat \<comment> \<open>one counter for all variables\<close>

definition AdaMod_init :: "real \<Rightarrow> real \<Rightarrow> real \<Rightarrow> real \<Rightarrow> real \<Rightarrow> real \<Rightarrow> AdaMod" where
  "AdaMod_init lr b1 b2 b3 eps wd =
     \<lparr>built = False, iterations = 0, learning_rate = lr, weight_decay = wd,
      beta1 = b1, beta2 = b2, beta3 = b3, epsilon = eps,
      exp_avg = [], exp_avg_sq = [], exp_avg_lr = [], step = 0\<rparr>"

definition AdaMod_build_var :: "tensor \<Rightarrow> AdaMod \<Rightarrow> AdaMod" where
  "AdaMod_build_var var self =
     (let self = self\<lparr>exp_avg := exp_avg self @ [add_variable_from_reference var]\<rparr>;
          self = self\<lparr>exp_avg_sq := exp_avg_sq self @ [add_variable_from_reference var]\<rparr>
      in self\<lparr>exp_avg_lr := exp_avg_lr self @ [add_variable_from_reference var]\<rparr>)"

definition AdaMod_build :: "AdaMod \<Rightarrow> tensor list \<Rightarrow> AdaMod" where
  "AdaMod_build self var_list =
     (if built self then
        let self = self\<lparr>exp_avg := manager_list (exp_avg self)\<rparr>;
            self = self\<lparr>exp_avg_sq := manager_list (exp_avg_sq self)\<rparr>
        in self\<lparr>exp_avg_lr := manager_list (exp_avg_lr self)\<rparr>
      else
        let self = Optimizer_build self var_list;
            self = self\<lparr>exp_avg := manager_list []\<rparr>;
            self = self\<lparr>exp_avg_sq := manager_list []\<rparr>;
            self = self\<lparr>exp_avg_lr := manager_list []\<rparr>;
            self = self\<lparr>step := 0\<rparr>
        in fold AdaMod_build_var var_list self)"

definition AdaMod_lookup :: "AdaMod \<Rightarrow> nat \<Rightarrow> error option" where
  "AdaMod_lookup self i =
     (if \<not> built self then Some AttributeError
      else if \<not> (i < length (exp_avg self) \<and> i < length (exp_avg_sq self)
                \<and> i < length (exp_avg_lr self)) then Some LookupError
      else None)"

definition AdaMod_denom :: "tensor \<Rightarrow> real \<Rightarrow> tensor" where
  "AdaMod_denom v eps = add_scalar (tf_sqrt v) eps"

text \<open>
  Lines 106 and 107: the new average of the step sizes and the step size capped by it,
  from the old average and the raw step size.
\<close>

definition momental_bound :: "real \<Rightarrow> tensor \<Rightarrow> tensor \<Rightarrow> tensor \<times> tensor" where
  "momental_bound b3 avg_lr raw =
     (let avg_lr' = tf_add (scalar_mul b3 avg_lr) (scalar_mul (1 - b3) raw)
      in (avg_lr', tf_minimum raw avg_lr'))"

text \<open>
  Lines 91 and 92: the two moments as they stand in the copies of the slots of variable
  \<open>i\<close> after the assignments.
\<close>

definition AdaMod_moments :: "AdaMod \<Rightarrow> tensor \<Rightarrow> nat \<Rightarrow> tensor \<times> tensor" where
  "AdaMod_moments self g i =
     (let exp_avg' = tf_add (scalar_mul (beta1 self) (exp_avg self ! i))
                            (scalar_mul (1 - beta1 self) g);
          exp_avg_sq' = tf_add (scalar_mul (beta2 self) (exp_avg_sq self ! i))
                               (scalar_mul (1 - beta2 self) (tf_square g))
      in (exp_avg', exp_avg_sq'))"

text \<open>Lines 88 to 110 for the dense tensor \<open>g\<close>, after the lookups.\<close>

definition AdaMod_dense_step ::
  "AdaMod \<Rightarrow> tensor \<Rightarrow> nat \<Rightarrow> tensor \<Rightarrow> real \<Rightarrow> outcome \<times> AdaMod \<times> tensor" where
  "AdaMod_dense_step self g i variable lr =
     (let self = self\<lparr>step := step self + 1\<rparr>;
          (exp_avg', exp_avg_sq') = AdaMod_moments self g i;
          denom = AdaMod_denom exp_avg_sq' (epsilon self);
          bias_correction1 = 1 - beta1 self ^ step self;
          bias_correction2 = 1 - beta2 self ^ step self;
          step_size = lr * sqrt bias_correction2 / bias_correction1;
          variable =
            (if weight_decay self \<noteq> 0
             then tf_add variable (scalar_mul (- weight_decay self * lr) variable)
             else variable);
          step_size = tf_fill (length denom) step_size;
          step_size = tf_divide step_size denom;
          (exp_avg_lr', step_size) = momental_bound (beta3 self) (exp_avg_lr self ! i) step_size;
          step_size = tf_multiply step_size exp_avg'
      in (Returned, self, tf_add variable (tf_negative step_size)))"

text \<open>
  update_step. A \<^verbatim>\<open>tf.IndexedSlices\<close> passes the test of line 80; line 91 multiplies it
  by a Python float, for which there is no rule: the call raises TypeError after line 88
  has counted it.
\<close>

definition AdaMod_update_step ::
  "AdaMod \<Rightarrow> gradient \<Rightarrow> nat \<Rightarrow> tensor \<Rightarrow> real \<Rightarrow> outcome \<times> AdaMod \<times> tensor" where
  "AdaMod_update_step self gradient i variable lr =
     (case gradient of
        Sparse _ \<Rightarrow> (Raised RuntimeError, self, variable)
      | Dense g \<Rightarrow>
         (case AdaMod_lookup self i of
            Some e \<Rightarrow> (Raised e, self, variable)
          | None \<Rightarrow> AdaMod_dense_step self g i variable lr)
      | IndexedSlices g \<Rightarrow>
         (case AdaMod_lookup self i of
            Some e \<Rightarrow> (Raised e, self, variable)
          | None \<Rightarrow> (Raised TypeError, self\<lparr>step := step self + 1\<rparr>, variable)))"

text \<open>get_config of AdaMod reads no attribute that build creates.\<close>

definition AdaMod_get_config :: "AdaMod \<Rightarrow> config \<Rightarrow> config" where
  "AdaMod_get_config self base_config =
     base_config
       (''beta1'' \<mapsto> Cfg_float (beta1 self),
        ''beta2'' \<mapsto> Cfg_float (beta2 self),
        ''beta3'' \<mapsto> Cfg_float (beta3 self),
        ''epsilon'' \<mapsto> Cfg_float (epsilon self),
        ''step'' \<mapsto> Cfg_int (iterations self))"

text \<open>Hosts that call update_step again and again, as for AdaBound.\<close>

fun AdamP_run ::
  "AdamP \<Rightarrow> (dtype \<times> tensor \<times> nat \<times> nat list \<times> tensor \<times> real) list \<Rightarrow> AdamP" where
  "AdamP_run self [] = self"
| "AdamP_run self ((dt, g, i, shape, variable, lr) # calls) =
     AdamP_run (fst (snd (AdamP_update_step self dt g i shape variable lr))) calls"

fun AdaMod_run :: "AdaMod \<Rightarrow> (gradient \<times> nat \<times> tensor \<times> real) list \<Rightarrow> AdaMod" where
  "AdaMod_run self [] = self"
| "AdaMod_run self ((g, i, variable, lr) # calls) =
     AdaMod_run (fst (snd (AdaMod_update_step self g i variable lr))) calls"

section \<open>The update of AdaBound as the spec writes it\<close>

text \<open>
  Section 4.1 of the spec, steps 2 to 9 with amsbound false, for one element of the
  tensors: from the element of the gradient, of the parameter and of the two moments to
  the new moments and the new parameter. \<open>step'\<close> is the counter after step 2. These
  definitions follow the words of the spec and use nothing of the model of the code:
  the clip is the function that leaves a value between the bounds and puts a value
  outside them on the nearer bound.
\<close>

definition spec_clip :: "real \<Rightarrow> real \<Rightarrow> real \<Rightarrow> real" where
  "spec_clip x lower upper = (if x < lower then lower else if upper < x then upper else x)"

definition spec_lower :: "real \<Rightarrow> real \<Rightarrow> real \<Rightarrow> real \<Rightarrow> nat \<Rightarrow> real" where
  "spec_lower flr gam blr lr step' = flr * lr / blr * (1 - 1 / (gam * real step' + 1))"

definition spec_upper :: "real \<Rightarrow> real \<Rightarrow> real \<Rightarrow> real \<Rightarrow> nat \<Rightarrow> real" where
  "spec_upper flr gam blr lr step' = flr * lr / blr * (1 + 1 / (gam * real step'))"

definition AdaBound_spec_elem ::
  "real \<Rightarrow> real \<Rightarrow> real \<Rightarrow> real \<Rightarrow> real \<Rightarrow> real \<Rightarrow> real \<Rightarrow> real \<Rightarrow> nat \<Rightarrow>
   real \<Rightarrow> real \<Rightarrow> real \<Rightarrow> real \<Rightarrow> real \<times> real \<times> real" where
  "AdaBound_spec_elem b1 b2 eps flr gam wd blr lr step' g p m v =
     (let g' = (if wd \<noteq> 0 then g + wd * p else g);
          m' = b1 * m + (1 - b1) * g';
          v' = b2 * v + (1 - b2) * g'\<^sup>2;
          denom = sqrt v' + eps;
          step_size_scalar = lr * sqrt (1 - b2 ^ step') / (1 - b1 ^ step');
          lower = spec_lower flr gam blr lr step';
          upper = spec_upper flr gam blr lr step';
          p' = p - spec_clip (step_size_scalar / denom) lower upper * m'
      in (m', v', p'))"

section \<open>Examples\<close>

text \<open>
  Built optimizers over one variable of one element (AdaBound, AdamP) and over two
  variables (AdaMod), on which the theorems below are evaluated.
\<close>

definition AdaBound_example :: AdaBound where
  "AdaBound_example = AdaBound_build (AdaBound_init 1 (1/2) (3/4) 1 0 1 1 False) [[1]]"

definition AdamP_example :: AdamP where
  "AdamP_example = AdamP_build (AdamP_init 1 (1/2) (3/4) 1 0 (1/10) (1/10) False) [[1]]"

definition AdaMod_example :: AdaMod where
  "AdaMod_example = AdaMod_build (AdaMod_init 1 (1/2) (3/4) (1/2) 1 0) [[1], [1]]"

section \<open>Auxiliary facts\<close>

lemmas tensor_defs = zeros_like_def scalar_mul_def mul_scalar_def add_scalar_def div_scalar_def
  tf_add_def tf_multiply_def tf_divide_def tf_negative_def tf_square_def tf_sqrt_def tf_abs_def
  tf_maximum_def tf_minimum_def tf_fill_def tf_clip_by_value_def

lemmas AdaBound_defs = AdaBound_update_step_def AdaBound_dense_step_def AdaBound_build_def
  AdaBound_init_def Optimizer_build_def AdaBound_build_var_def AdaBound_lookup_def
  AdaBound_denom_def AdaBound_moments_def AdaBound_count_def math_sqrt_def lower_bound_def upper_bound_def py_div_def Let_def
  clip_value_def

lemmas AdamP_defs = AdamP_update_step_def AdamP_build_def AdamP_init_def
  Optimizer_build_def AdamP_build_var_def AdamP_lookup_def AdamP_denom_def
  AdamP_moments_def AdamP_count_def AdamP_perturb_def is_integer_def as_float_def
  math_sqrt_def py_div_def Let_def

lemmas AdaMod_defs = AdaMod_update_step_def AdaMod_dense_step_def AdaMod_build_def AdaMod_init_def
  Optimizer_build_def AdaMod_build_var_def AdaMod_lookup_def AdaMod_denom_def
  AdaMod_moments_def momental_bound_def manager_list_def Let_def

lemma AdaBound_example_eq:
  "AdaBound_example =
     \<lparr>built = True, iterations = 0, learning_rate = 1, weight_decay = 0,
      AdaBound.beta1 = 1/2, AdaBound.beta2 = 3/4, AdaBound.epsilon = 1, final_lr = 1, gamma = 1,
      amsbound = False, AdaBound.exp_avg = [[0]], AdaBound.exp_avg_sq = [[0]],
      max_exp_avg_sq = None, base_lr = 1, AdaBound.step = [0]\<rparr>"
  by (simp add: AdaBound_example_def AdaBound_defs add_variable_from_reference_def zeros_like_def)

lemma AdamP_example_eq:
  "AdamP_example =
     \<lparr>built = True, iterations = 0, learning_rate = 1, weight_decay = 0,
      AdamP.beta1 = 1/2, AdamP.beta2 = 3/4, AdamP.epsilon = 1, delta = 1/10, wd_ratio = 1/10,
      nesterov = False, AdamP.exp_avg = [[0]], AdamP.exp_avg_sq = [[0]], AdamP.step = [0]\<rparr>"
  by (simp add: AdamP_example_def AdamP_defs add_variable_from_reference_def zeros_like_def)

lemma AdaMod_example_eq:
  "AdaMod_example =
     \<lparr>built = True, iterations = 0, learning_rate = 1, weight_decay = 0,
      AdaMod.beta1 = 1/2, AdaMod.beta2 = 3/4, beta3 = 1/2, AdaMod.epsilon = 1,
      AdaMod.exp_avg = [[0], [0]], AdaMod.exp_avg_sq = [[0], [0]], exp_avg_lr = [[0], [0]],
      AdaMod.step = 0\<rparr>"
  by (simp add: AdaMod_example_def AdaMod_defs add_variable_from_reference_def zeros_like_def)

subsection \<open>build\<close>

lemma built_fold_AdaBound_build_var: "built (fold AdaBound_build_var vs s) = built s"
  by (induction vs arbitrary: s) (simp_all add: AdaBound_build_var_def Let_def)

lemma built_fold_AdamP_build_var: "built (fold AdamP_build_var vs s) = built s"
  by (induction vs arbitrary: s) (simp_all add: AdamP_build_var_def Let_def)

lemma built_fold_AdaMod_build_var: "built (fold AdaMod_build_var vs s) = built s"
  by (induction vs arbitrary: s) (simp_all add: AdaMod_build_var_def Let_def)

lemma built_AdaBound_build: "built (AdaBound_build s vs)"
  by (simp add: AdaBound_build_def Let_def built_fold_AdaBound_build_var Optimizer_build_def)

lemma built_AdamP_build: "built (AdamP_build s vs)"
  by (simp add: AdamP_build_def Let_def built_fold_AdamP_build_var Optimizer_build_def)

lemma built_AdaMod_build: "built (AdaMod_build s vs)"
  by (simp add: AdaMod_build_def Let_def built_fold_AdaMod_build_var Optimizer_build_def
      manager_list_def)

lemma AdaBound_build_built: "built s \<Longrightarrow> AdaBound_build s vs = s"
  by (simp add: AdaBound_build_def)

lemma AdamP_build_built: "built s \<Longrightarrow> AdamP_build s vs = s"
  by (simp add: AdamP_build_def)

lemma AdaMod_build_built: "built s \<Longrightarrow> AdaMod_build s vs = s"
  by (simp add: AdaMod_build_def manager_list_def Let_def)

subsection \<open>The state update_step leaves\<close>

lemma nth_list_update_Suc_ge: "j < length xs \<Longrightarrow> xs ! j \<le> xs[i := Suc (xs ! i)] ! j"
  by (cases "i = j") simp_all

lemma AdaBound_count_fields:
  "built (AdaBound_count a i) = built a"
  "iterations (AdaBound_count a i) = iterations a"
  "length (AdaBound.step (AdaBound_count a i)) = length (AdaBound.step a)"
  "amsbound (AdaBound_count a i) = amsbound a"
  "max_exp_avg_sq (AdaBound_count a i) = max_exp_avg_sq a"
  "AdaBound.step (AdaBound_count a i) = (AdaBound.step a)[i := AdaBound.step a ! i + 1]"
  by (simp_all add: AdaBound_count_def)

lemma AdaBound_moments_fields:
  "built (AdaBound_moments a g i p) = built a"
  "iterations (AdaBound_moments a g i p) = iterations a"
  "length (AdaBound.step (AdaBound_moments a g i p)) = length (AdaBound.step a)"
  "amsbound (AdaBound_moments a g i p) = amsbound a"
  "max_exp_avg_sq (AdaBound_moments a g i p) = max_exp_avg_sq a"
  "AdaBound.step (AdaBound_moments a g i p) = (AdaBound.step a)[i := AdaBound.step a ! i + 1]"
  by (simp_all add: AdaBound_moments_def AdaBound_count_def Let_def)

lemma AdaBound_denom_fields:
  "built (fst (AdaBound_denom a i)) = built a"
  "iterations (fst (AdaBound_denom a i)) = iterations a"
  "AdaBound.step (fst (AdaBound_denom a i)) = AdaBound.step a"
  "amsbound (fst (AdaBound_denom a i)) = amsbound a"
  "\<not> amsbound a \<Longrightarrow> fst (AdaBound_denom a i) = a"
  by (simp_all add: AdaBound_denom_def Let_def split: option.splits)

lemma AdaBound_dense_step_state:
  "fst (snd (AdaBound_dense_step a g0 i p lr)) =
     fst (AdaBound_denom (AdaBound_moments a g0 i p) i)"
  by (simp add: AdaBound_dense_step_def Let_def split: sum.splits prod.splits)

lemma AdaBound_update_step_state:
  "fst (snd (AdaBound_update_step a g i p lr)) = a \<or>
   (AdaBound_lookup a i = None \<and>
    (fst (snd (AdaBound_update_step a g i p lr)) = AdaBound_count a i \<or>
     (\<exists>g0. fst (snd (AdaBound_update_step a g i p lr)) =
        fst (AdaBound_denom (AdaBound_moments a g0 i p) i))))"
  by (auto simp: AdaBound_update_step_def AdaBound_dense_step_state
      split: gradient.splits option.splits)

lemma AdaBound_update_step_dense_state:
  "AdaBound_lookup a i = None \<Longrightarrow>
   fst (snd (AdaBound_update_step a (Dense g) i p lr)) =
     fst (AdaBound_denom (AdaBound_moments a g i p) i)"
  by (simp add: AdaBound_update_step_def AdaBound_dense_step_state)

lemma AdaBound_update_step_iterations:
  "iterations (fst (snd (AdaBound_update_step a g i p lr))) = iterations a"
  using AdaBound_update_step_state [of a g i p lr]
  by (auto simp: AdaBound_denom_fields AdaBound_moments_fields AdaBound_count_fields)

lemma AdaBound_update_step_built:
  "built (fst (snd (AdaBound_update_step a g i p lr))) = built a"
  using AdaBound_update_step_state [of a g i p lr]
  by (auto simp: AdaBound_denom_fields AdaBound_moments_fields AdaBound_count_fields)

lemma AdaBound_update_step_length_step:
  "length (AdaBound.step (fst (snd (AdaBound_update_step a g i p lr)))) = length (AdaBound.step a)"
  using AdaBound_update_step_state [of a g i p lr]
  by (auto simp: AdaBound_denom_fields AdaBound_moments_fields AdaBound_count_fields)

lemma AdaBound_update_step_step_mono:
  "j < length (AdaBound.step a) \<Longrightarrow>
   AdaBound.step a ! j \<le> AdaBound.step (fst (snd (AdaBound_update_step a g i p lr))) ! j"
  using AdaBound_update_step_state [of a g i p lr]
  by (auto simp: AdaBound_denom_fields AdaBound_moments_fields AdaBound_count_fields
      nth_list_update_Suc_ge)

lemma AdaBound_update_step_amsbound:
  "amsbound (fst (snd (AdaBound_update_step a g i p lr))) = amsbound a"
  using AdaBound_update_step_state [of a g i p lr]
  by (auto simp: AdaBound_denom_fields AdaBound_moments_fields AdaBound_count_fields)

lemma AdaBound_update_step_max_exp_avg_sq:
  "\<not> amsbound a \<Longrightarrow>
   max_exp_avg_sq (fst (snd (AdaBound_update_step a g i p lr))) = max_exp_avg_sq a"
  using AdaBound_update_step_state [of a g i p lr]
  by (auto simp: AdaBound_denom_fields AdaBound_moments_fields AdaBound_count_fields)

lemma AdaBound_run_iterations: "iterations (AdaBound_run a calls) = iterations a"
  by (induction a calls rule: AdaBound_run.induct) (simp_all add: AdaBound_update_step_iterations)

lemma AdaBound_run_built: "built (AdaBound_run a calls) = built a"
  by (induction a calls rule: AdaBound_run.induct) (simp_all add: AdaBound_update_step_built)

lemma AdaBound_run_length_step:
  "length (AdaBound.step (AdaBound_run a calls)) = length (AdaBound.step a)"
  by (induction a calls rule: AdaBound_run.induct) (simp_all add: AdaBound_update_step_length_step)

lemma AdaBound_run_amsbound: "amsbound (AdaBound_run a calls) = amsbound a"
  by (induction a calls rule: AdaBound_run.induct) (simp_all add: AdaBound_update_step_amsbound)

lemma AdaBound_run_max_exp_avg_sq:
  "\<not> amsbound a \<Longrightarrow> max_exp_avg_sq (AdaBound_run a calls) = max_exp_avg_sq a"
  by (induction a calls rule: AdaBound_run.induct)
     (simp_all add: AdaBound_update_step_amsbound AdaBound_update_step_max_exp_avg_sq)

lemma AdamP_count_fields:
  "built (AdamP_count a i) = built a"
  "iterations (AdamP_count a i) = iterations a"
  "length (AdamP.step (AdamP_count a i)) = length (AdamP.step a)"
  "AdamP.step (AdamP_count a i) = (AdamP.step a)[i := AdamP.step a ! i + 1]"
  by (simp_all add: AdamP_count_def)

lemma AdamP_moments_fields:
  "built (AdamP_moments dt a g i) = built a"
  "iterations (AdamP_moments dt a g i) = iterations a"
  "length (AdamP.step (AdamP_moments dt a g i)) = length (AdamP.step a)"
  "AdamP.step (AdamP_moments dt a g i) = (AdamP.step a)[i := AdamP.step a ! i + 1]"
  by (simp_all add: AdamP_moments_def AdamP_count_def Let_def)

lemma AdamP_update_step_state:
  "fst (snd (AdamP_update_step a dt g i sh p lr)) = a \<or>
   (AdamP_lookup a i = None \<and>
    (fst (snd (AdamP_update_step a dt g i sh p lr)) = AdamP_count a i \<or>
     fst (snd (AdamP_update_step a dt g i sh p lr)) = AdamP_moments dt a g i))"
  by (simp add: AdamP_update_step_def Let_def
      split: option.splits sum.splits prod.splits)

lemma AdamP_update_step_found_step:
  "AdamP_lookup a i = None \<Longrightarrow>
   AdamP.step (fst (snd (AdamP_update_step a dt g i sh p lr))) =
     (AdamP.step a)[i := AdamP.step a ! i + 1]"
  by (simp add: AdamP_update_step_def Let_def AdamP_moments_fields AdamP_count_fields
      split: sum.splits prod.splits)

lemma AdamP_update_step_iterations:
  "iterations (fst (snd (AdamP_update_step a dt g i sh p lr))) = iterations a"
  using AdamP_update_step_state [of a dt g i sh p lr]
  by (auto simp: AdamP_moments_fields AdamP_count_fields)

lemma AdamP_update_step_built:
  "built (fst (snd (AdamP_update_step a dt g i sh p lr))) = built a"
  using AdamP_update_step_state [of a dt g i sh p lr]
  by (auto simp: AdamP_moments_fields AdamP_count_fields)

lemma AdamP_update_step_length_step:
  "length (AdamP.step (fst (snd (AdamP_update_step a dt g i sh p lr)))) = length (AdamP.step a)"
  using AdamP_update_step_state [of a dt g i sh p lr]
  by (auto simp: AdamP_moments_fields AdamP_count_fields)

lemma AdamP_update_step_step_mono:
  "j < length (AdamP.step a) \<Longrightarrow>
   AdamP.step a ! j \<le> AdamP.step (fst (snd (AdamP_update_step a dt g i sh p lr))) ! j"
  using AdamP_update_step_state [of a dt g i sh p lr]
  by (auto simp: AdamP_moments_fields AdamP_count_fields nth_list_update_Suc_ge)

lemma AdamP_run_iterations: "iterations (AdamP_run a calls) = iterations a"
  by (induction a calls rule: AdamP_run.induct) (simp_all add: AdamP_update_step_iterations)

lemma AdamP_run_built: "built (AdamP_run a calls) = built a"
  by (induction a calls rule: AdamP_run.induct) (simp_all add: AdamP_update_step_built)

lemma AdamP_run_length_step:
  "length (AdamP.step (AdamP_run a calls)) = length (AdamP.step a)"
  by (induction a calls rule: AdamP_run.induct) (simp_all add: AdamP_update_step_length_step)

lemma AdaMod_dense_step_state:
  "fst (snd (AdaMod_dense_step a g i p lr)) = a\<lparr>AdaMod.step := AdaMod.step a + 1\<rparr>"
  by (simp add: AdaMod_dense_step_def Let_def split: prod.splits)

lemma AdaMod_update_step_state:
  "fst (snd (AdaMod_update_step a g i p lr)) = a \<or>
   (AdaMod_lookup a i = None \<and>
    fst (snd (AdaMod_update_step a g i p lr)) = a\<lparr>AdaMod.step := AdaMod.step a + 1\<rparr>)"
  by (auto simp: AdaMod_update_step_def AdaMod_dense_step_state
      split: gradient.splits option.splits)

lemma AdaMod_update_step_dense_step:
  "AdaMod_lookup a i = None \<Longrightarrow>
   AdaMod.step (fst (snd (AdaMod_update_step a (Dense g) i p lr))) = AdaMod.step a + 1"
  by (simp add: AdaMod_update_step_def AdaMod_dense_step_state)

lemma AdaMod_update_step_iterations:
  "iterations (fst (snd (AdaMod_update_step a g i p lr))) = iterations a"
  using AdaMod_update_step_state [of a g i p lr] by auto

lemma AdaMod_update_step_step_mono:
  "AdaMod.step a \<le> AdaMod.step (fst (snd (AdaMod_update_step a g i p lr)))"
  using AdaMod_update_step_state [of a g i p lr] by auto

lemma AdaMod_run_iterations: "iterations (AdaMod_run a calls) = iterations a"
  by (induction a calls rule: AdaMod_run.induct) (simp_all add: AdaMod_update_step_iterations)

subsection \<open>Errors\<close>

lemma AdaBound_lookup_not_RuntimeError: "AdaBound_lookup a i \<noteq> Some RuntimeError"
  by (simp add: AdaBound_lookup_def)

lemma AdaMod_lookup_not_RuntimeError: "AdaMod_lookup a i \<noteq> Some RuntimeError"
  by (simp add: AdaMod_lookup_def)

lemma math_sqrt_error: "math_sqrt x = Inl e \<Longrightarrow> e = ValueError"
  by (simp add: math_sqrt_def split: if_splits)

lemma lower_bound_error: "lower_bound f g t = Inl e \<Longrightarrow> e = ZeroDivisionError"
  by (simp add: lower_bound_def py_div_def split: if_splits)

lemma upper_bound_error: "upper_bound f g t = Inl e \<Longrightarrow> e = ZeroDivisionError"
  by (simp add: upper_bound_def py_div_def split: if_splits)

lemma AdaBound_dense_step_not_RuntimeError:
  "fst (AdaBound_dense_step a g i p lr) \<noteq> Raised RuntimeError"
  by (auto simp: AdaBound_dense_step_def Let_def
      split: sum.splits prod.splits
      dest: math_sqrt_error lower_bound_error upper_bound_error)

lemma AdaBound_dense_not_RuntimeError:
  "fst (AdaBound_update_step a (Dense g) i p lr) \<noteq> Raised RuntimeError"
  using AdaBound_lookup_not_RuntimeError [of a i]
  by (auto simp: AdaBound_update_step_def AdaBound_dense_step_not_RuntimeError
      split: option.splits)

lemma AdaMod_dense_not_RuntimeError:
  "fst (AdaMod_update_step a (Dense g) i p lr) \<noteq> Raised RuntimeError"
  using AdaMod_lookup_not_RuntimeError [of a i]
  by (auto simp: AdaMod_update_step_def AdaMod_dense_step_def Let_def
      split: option.splits prod.splits)

lemma lower_bound_Inr:
  "gam * real t + 1 \<noteq> 0 \<Longrightarrow> lower_bound f gam t = Inr (f * (1 - 1 / (gam * real t + 1)))"
  by (simp add: lower_bound_def py_div_def)

lemma upper_bound_Inr:
  "gam * real t \<noteq> 0 \<Longrightarrow> upper_bound f gam t = Inr (f * (1 + 1 / (gam * real t)))"
  by (simp add: upper_bound_def py_div_def)

subsection \<open>Denominators\<close>















subsection \<open>The clip and two roots\<close>

lemma clip_value_spec_clip: "lo \<le> up \<Longrightarrow> clip_value x lo up = spec_clip x lo up"
  by (auto simp: clip_value_def spec_clip_def)

lemma sqrt_9: "sqrt 9 = 3"
  by (rule real_sqrt_unique) simp_all

lemma sqrt_16: "sqrt 16 = 4"
  by (rule real_sqrt_unique) simp_all

section \<open>The claims\<close>

text \<open>
  C1. For a built AdaBound optimizer without amsbound, a dense gradient \<open>g\<close> and a
  parameter \<open>p\<close> of the shape of the moments, one call of update_step returns, adds 1 to the
  counter of the parameter and leaves every other counter, and for every element produces
  exactly the values of the spec's formulas: the decayed gradient, the two moments, the
  denominator, the bias-corrected scalar step size, the two bounds from
  \<open>final_lr * lr / base_lr\<close>, and \<open>p - clip(step_size_scalar / denom, lower, upper) * exp_avg'\<close>,
  with the clip of the spec, \<open>spec_clip\<close>. \<open>base_lr\<close> is the value, at the call, of
  the object that build stored. The hypotheses after the shapes say that the formulas of
  the claim are defined in the arithmetic of the code. The root of the bias correction is
  of a number that is not negative and the two denominators with \<open>gamma\<close> are not zero:
  Python raises otherwise. The bias correction of \<open>beta1\<close>, \<open>base_lr\<close> and the elements
  of \<open>denom\<close> are not zero and no element under the elementwise root is negative: the
  tensors of the code hold inf or nan otherwise. The lower bound is at most the upper
  bound: the clip of the spec is between the two, where \<^verbatim>\<open>tf.clip_by_value\<close> gives the
  lower bound when they cross.
\<close>

theorem AdaBound_update_step_spec:
  assumes "built a" "\<not> amsbound a"
    and "i < length (AdaBound.exp_avg a)" "i < length (AdaBound.exp_avg_sq a)"
        "i < length (AdaBound.step a)"
    and "length g = length p" "length (AdaBound.exp_avg a ! i) = length p"
        "length (AdaBound.exp_avg_sq a ! i) = length p"
    and "0 \<le> 1 - AdaBound.beta2 a ^ (AdaBound.step a ! i + 1)"
    and "gamma a * real (AdaBound.step a ! i + 1) \<noteq> 0"
    and "gamma a * real (AdaBound.step a ! i + 1) + 1 \<noteq> 0"
    and "1 - AdaBound.beta1 a ^ (AdaBound.step a ! i + 1) \<noteq> 0"
    and "base_lr a \<noteq> 0"
    and "\<forall>x\<in>set (AdaBound.exp_avg_sq (AdaBound_moments a g i p) ! i). 0 \<le> x"
    and "\<forall>d\<in>set (snd (AdaBound_denom (AdaBound_moments a g i p) i)). d \<noteq> 0"
    and "spec_lower (final_lr a) (gamma a) (base_lr a) lr (AdaBound.step a ! i + 1)
         \<le> spec_upper (final_lr a) (gamma a) (base_lr a) lr (AdaBound.step a ! i + 1)"
  shows "\<exists>a' p'. AdaBound_update_step a (Dense g) i p lr = (Returned, a', p')
     \<and> AdaBound.step a' = (AdaBound.step a)[i := AdaBound.step a ! i + 1]
     \<and> length p' = length p
     \<and> length (AdaBound.exp_avg a' ! i) = length p
     \<and> length (AdaBound.exp_avg_sq a' ! i) = length p
     \<and> (\<forall>k<length p.
           (AdaBound.exp_avg a' ! i ! k, AdaBound.exp_avg_sq a' ! i ! k, p' ! k) =
           AdaBound_spec_elem (AdaBound.beta1 a) (AdaBound.beta2 a) (AdaBound.epsilon a)
             (final_lr a) (gamma a) (weight_decay a) (base_lr a) lr (AdaBound.step a ! i + 1)
             (g ! k) (p ! k) (AdaBound.exp_avg a ! i ! k) (AdaBound.exp_avg_sq a ! i ! k))
     \<and> a' = a\<lparr>AdaBound.step := (AdaBound.step a)[i := AdaBound.step a ! i + 1],
              AdaBound.exp_avg := (AdaBound.exp_avg a)[i := AdaBound.exp_avg a' ! i],
              AdaBound.exp_avg_sq := (AdaBound.exp_avg_sq a)[i := AdaBound.exp_avg_sq a' ! i]\<rparr>"
  using assms(1-11) assms(16)
  by (simp add: AdaBound_update_step_def AdaBound_dense_step_def AdaBound_lookup_def
      AdaBound_denom_def AdaBound_moments_def AdaBound_count_def math_sqrt_def lower_bound_def
      upper_bound_def py_div_def Let_def tensor_defs AdaBound_spec_elem_def power2_eq_square
      spec_lower_def spec_upper_def clip_value_spec_clip)

text \<open>
  The theorem on the built example with four values of the hyperparameters: the step
  size \<open>1/2\<close> lies between the bounds \<open>1/4\<close> and \<open>1\<close>; it is above the upper bound \<open>1/5\<close>;
  it is below the lower bound \<open>5\<close>; and, with a weight decay, the step size \<open>2/5\<close> of the
  decayed gradient lies between the bounds.
\<close>

theorem AdaBound_update_step_spec_witness:
  "built AdaBound_example \<and> \<not> amsbound AdaBound_example
   \<and> AdaBound.step AdaBound_example = [0] \<and> base_lr AdaBound_example = 1
   \<and> AdaBound.beta1 AdaBound_example = 1/2 \<and> AdaBound.beta2 AdaBound_example = 3/4
   \<and> gamma AdaBound_example = 1
   \<and> snd (AdaBound_denom (AdaBound_moments AdaBound_example [2] 0 [1]) 0) = [2]
   \<and> spec_lower (1/2) 1 1 1 1 = 1/4 \<and> spec_upper (1/2) 1 1 1 1 = 1
   \<and> AdaBound_spec_elem (1/2) (3/4) 1 (1/2) 1 0 1 1 1 2 1 0 0 = (1, 1, 1/2)
   \<and> AdaBound_update_step (AdaBound_example\<lparr>final_lr := 1/2\<rparr>) (Dense [2]) 0 [1] 1 =
       (Returned,
        AdaBound_example\<lparr>final_lr := 1/2, AdaBound.step := [1], AdaBound.exp_avg := [[1]],
                          AdaBound.exp_avg_sq := [[1]]\<rparr>,
        [1/2])
   \<and> spec_lower (1/10) 1 1 1 1 = 1/20 \<and> spec_upper (1/10) 1 1 1 1 = 1/5
   \<and> AdaBound_spec_elem (1/2) (3/4) 1 (1/10) 1 0 1 1 1 2 1 0 0 = (1, 1, 4/5)
   \<and> AdaBound_update_step (AdaBound_example\<lparr>final_lr := 1/10\<rparr>) (Dense [2]) 0 [1] 1 =
       (Returned,
        AdaBound_example\<lparr>final_lr := 1/10, AdaBound.step := [1], AdaBound.exp_avg := [[1]],
                          AdaBound.exp_avg_sq := [[1]]\<rparr>,
        [4/5])
   \<and> spec_lower 10 1 1 1 1 = 5 \<and> spec_upper 10 1 1 1 1 = 20
   \<and> AdaBound_spec_elem (1/2) (3/4) 1 10 1 0 1 1 1 2 1 0 0 = (1, 1, - 4)
   \<and> AdaBound_update_step (AdaBound_example\<lparr>final_lr := 10\<rparr>) (Dense [2]) 0 [1] 1 =
       (Returned,
        AdaBound_example\<lparr>final_lr := 10, AdaBound.step := [1], AdaBound.exp_avg := [[1]],
                          AdaBound.exp_avg_sq := [[1]]\<rparr>,
        [- 4])
   \<and> AdaBound_spec_elem (1/2) (3/4) 1 (1/2) 1 1 1 1 1 2 1 0 0 = (3/2, 9/4, 2/5)
   \<and> AdaBound_update_step (AdaBound_example\<lparr>weight_decay := 1, final_lr := 1/2\<rparr>)
       (Dense [2]) 0 [1] 1 =
       (Returned,
        AdaBound_example\<lparr>weight_decay := 1, final_lr := 1/2, AdaBound.step := [1],
                          AdaBound.exp_avg := [[3/2]], AdaBound.exp_avg_sq := [[9/4]]\<rparr>,
        [2/5])"
proof -
  let ?a1 = "AdaBound_example\<lparr>final_lr := 1/2\<rparr>"
  let ?a2 = "AdaBound_example\<lparr>final_lr := 1/10\<rparr>"
  let ?a3 = "AdaBound_example\<lparr>final_lr := 10\<rparr>"
  let ?a4 = "AdaBound_example\<lparr>weight_decay := 1, final_lr := 1/2\<rparr>"
  have hyps1: "built ?a1" "\<not> amsbound ?a1"
    "0 < length (AdaBound.exp_avg ?a1)" "0 < length (AdaBound.exp_avg_sq ?a1)"
    "0 < length (AdaBound.step ?a1)"
    "length [2::real] = length [1::real]"
    "length (AdaBound.exp_avg ?a1 ! 0) = length [1::real]"
    "length (AdaBound.exp_avg_sq ?a1 ! 0) = length [1::real]"
    "0 \<le> 1 - AdaBound.beta2 ?a1 ^ (AdaBound.step ?a1 ! 0 + 1)"
    "gamma ?a1 * real (AdaBound.step ?a1 ! 0 + 1) \<noteq> 0"
    "gamma ?a1 * real (AdaBound.step ?a1 ! 0 + 1) + 1 \<noteq> 0"
    "1 - AdaBound.beta1 ?a1 ^ (AdaBound.step ?a1 ! 0 + 1) \<noteq> 0"
    "base_lr ?a1 \<noteq> 0"
    "\<forall>x\<in>set (AdaBound.exp_avg_sq (AdaBound_moments ?a1 [2] 0 [1]) ! 0). 0 \<le> x"
    "\<forall>d\<in>set (snd (AdaBound_denom (AdaBound_moments ?a1 [2] 0 [1]) 0)). d \<noteq> 0"
    "spec_lower (final_lr ?a1) (gamma ?a1) (base_lr ?a1) 1 (AdaBound.step ?a1 ! 0 + 1)
       \<le> spec_upper (final_lr ?a1) (gamma ?a1) (base_lr ?a1) 1 (AdaBound.step ?a1 ! 0 + 1)"
    by (simp_all add: AdaBound_example_eq AdaBound_defs tensor_defs spec_lower_def
        spec_upper_def real_sqrt_divide sqrt_9)
  have hyps2: "built ?a2" "\<not> amsbound ?a2"
    "0 < length (AdaBound.exp_avg ?a2)" "0 < length (AdaBound.exp_avg_sq ?a2)"
    "0 < length (AdaBound.step ?a2)"
    "length [2::real] = length [1::real]"
    "length (AdaBound.exp_avg ?a2 ! 0) = length [1::real]"
    "length (AdaBound.exp_avg_sq ?a2 ! 0) = length [1::real]"
    "0 \<le> 1 - AdaBound.beta2 ?a2 ^ (AdaBound.step ?a2 ! 0 + 1)"
    "gamma ?a2 * real (AdaBound.step ?a2 ! 0 + 1) \<noteq> 0"
    "gamma ?a2 * real (AdaBound.step ?a2 ! 0 + 1) + 1 \<noteq> 0"
    "1 - AdaBound.beta1 ?a2 ^ (AdaBound.step ?a2 ! 0 + 1) \<noteq> 0"
    "base_lr ?a2 \<noteq> 0"
    "\<forall>x\<in>set (AdaBound.exp_avg_sq (AdaBound_moments ?a2 [2] 0 [1]) ! 0). 0 \<le> x"
    "\<forall>d\<in>set (snd (AdaBound_denom (AdaBound_moments ?a2 [2] 0 [1]) 0)). d \<noteq> 0"
    "spec_lower (final_lr ?a2) (gamma ?a2) (base_lr ?a2) 1 (AdaBound.step ?a2 ! 0 + 1)
       \<le> spec_upper (final_lr ?a2) (gamma ?a2) (base_lr ?a2) 1 (AdaBound.step ?a2 ! 0 + 1)"
    by (simp_all add: AdaBound_example_eq AdaBound_defs tensor_defs spec_lower_def
        spec_upper_def real_sqrt_divide sqrt_9)
  have hyps3: "built ?a3" "\<not> amsbound ?a3"
    "0 < length (AdaBound.exp_avg ?a3)" "0 < length (AdaBound.exp_avg_sq ?a3)"
    "0 < length (AdaBound.step ?a3)"
    "length [2::real] = length [1::real]"
    "length (AdaBound.exp_avg ?a3 ! 0) = length [1::real]"
    "length (AdaBound.exp_avg_sq ?a3 ! 0) = length [1::real]"
    "0 \<le> 1 - AdaBound.beta2 ?a3 ^ (AdaBound.step ?a3 ! 0 + 1)"
    "gamma ?a3 * real (AdaBound.step ?a3 ! 0 + 1) \<noteq> 0"
    "gamma ?a3 * real (AdaBound.step ?a3 ! 0 + 1) + 1 \<noteq> 0"
    "1 - AdaBound.beta1 ?a3 ^ (AdaBound.step ?a3 ! 0 + 1) \<noteq> 0"
    "base_lr ?a3 \<noteq> 0"
    "\<forall>x\<in>set (AdaBound.exp_avg_sq (AdaBound_moments ?a3 [2] 0 [1]) ! 0). 0 \<le> x"
    "\<forall>d\<in>set (snd (AdaBound_denom (AdaBound_moments ?a3 [2] 0 [1]) 0)). d \<noteq> 0"
    "spec_lower (final_lr ?a3) (gamma ?a3) (base_lr ?a3) 1 (AdaBound.step ?a3 ! 0 + 1)
       \<le> spec_upper (final_lr ?a3) (gamma ?a3) (base_lr ?a3) 1 (AdaBound.step ?a3 ! 0 + 1)"
    by (simp_all add: AdaBound_example_eq AdaBound_defs tensor_defs spec_lower_def
        spec_upper_def real_sqrt_divide sqrt_9)
  have hyps4: "built ?a4" "\<not> amsbound ?a4"
    "0 < length (AdaBound.exp_avg ?a4)" "0 < length (AdaBound.exp_avg_sq ?a4)"
    "0 < length (AdaBound.step ?a4)"
    "length [2::real] = length [1::real]"
    "length (AdaBound.exp_avg ?a4 ! 0) = length [1::real]"
    "length (AdaBound.exp_avg_sq ?a4 ! 0) = length [1::real]"
    "0 \<le> 1 - AdaBound.beta2 ?a4 ^ (AdaBound.step ?a4 ! 0 + 1)"
    "gamma ?a4 * real (AdaBound.step ?a4 ! 0 + 1) \<noteq> 0"
    "gamma ?a4 * real (AdaBound.step ?a4 ! 0 + 1) + 1 \<noteq> 0"
    "1 - AdaBound.beta1 ?a4 ^ (AdaBound.step ?a4 ! 0 + 1) \<noteq> 0"
    "base_lr ?a4 \<noteq> 0"
    "\<forall>x\<in>set (AdaBound.exp_avg_sq (AdaBound_moments ?a4 [2] 0 [1]) ! 0). 0 \<le> x"
    "\<forall>d\<in>set (snd (AdaBound_denom (AdaBound_moments ?a4 [2] 0 [1]) 0)). d \<noteq> 0"
    "spec_lower (final_lr ?a4) (gamma ?a4) (base_lr ?a4) 1 (AdaBound.step ?a4 ! 0 + 1)
       \<le> spec_upper (final_lr ?a4) (gamma ?a4) (base_lr ?a4) 1 (AdaBound.step ?a4 ! 0 + 1)"
    by (simp_all add: AdaBound_example_eq AdaBound_defs tensor_defs spec_lower_def
        spec_upper_def real_sqrt_divide sqrt_9)
  show ?thesis
    using AdaBound_update_step_spec [OF hyps1] AdaBound_update_step_spec [OF hyps2]
      AdaBound_update_step_spec [OF hyps3] AdaBound_update_step_spec [OF hyps4]
    by (simp add: AdaBound_example_eq AdaBound_defs tensor_defs AdaBound_spec_elem_def
        spec_lower_def spec_upper_def spec_clip_def real_sqrt_divide sqrt_9)
qed

text \<open>
  C2. For AdaBound, AdamP and AdaMod and any two parameter lists, build on an optimizer
  that build has already built changes nothing: the state with its moments, counters and
  base learning rate is the state after the first build.
\<close>

theorem build_twice:
  "AdaBound_build (AdaBound_build a vs1) vs1' = AdaBound_build a vs1
   \<and> AdamP_build (AdamP_build p vs2) vs2' = AdamP_build p vs2
   \<and> AdaMod_build (AdaMod_build m vs3) vs3' = AdaMod_build m vs3"
  by (simp add: AdaBound_build_built AdamP_build_built AdaMod_build_built
      built_AdaBound_build built_AdamP_build built_AdaMod_build)

theorem build_twice_witness:
  "AdaBound_build AdaBound_example [[2, 3], [4]] = AdaBound_example
   \<and> AdamP_build AdamP_example [[2, 3], [4]] = AdamP_example
   \<and> AdaMod_build AdaMod_example [[2, 3], [4]] = AdaMod_example"
  using build_twice [of "AdaBound_init 1 (1/2) (3/4) 1 0 1 1 False" "[[1]]" "[[2, 3], [4]]"
      "AdamP_init 1 (1/2) (3/4) 1 0 (1/10) (1/10) False" "[[1]]" "[[2, 3], [4]]"
      "AdaMod_init 1 (1/2) (3/4) (1/2) 1 0" "[[1], [1]]" "[[2, 3], [4]]"]
  by (simp add: AdaBound_example_def AdamP_example_def AdaMod_example_def)

text \<open>
  C3, as amended. After any sequence of update_step calls the "step" field of the mapping
  of get_config is the counter \<open>iterations\<close> of the base class, which update_step never
  writes: for AdaBound and AdamP a list with one entry for each parameter, every entry
  equal to \<open>iterations\<close>, for AdaMod the number \<open>iterations\<close>. It is not read from the
  step counters that update_step advances.
\<close>

theorem get_config_step_is_iterations:
  assumes "built a" "built p"
  shows "step_field (AdaBound_get_config (AdaBound_run a calls) cfg) =
       Some (Cfg_list (replicate (length (AdaBound.step a)) (Cfg_int (iterations a))))
     \<and> step_field (AdamP_get_config (AdamP_run p calls') cfg) =
       Some (Cfg_list (replicate (length (AdamP.step p)) (Cfg_int (iterations p))))
     \<and> AdaMod_get_config (AdaMod_run m calls'') cfg ''step'' = Some (Cfg_int (iterations m))"
  using assms
  by (simp add: step_field_def AdaBound_get_config_def AdamP_get_config_def
      AdaMod_get_config_def AdaBound_run_iterations AdaBound_run_length_step AdaBound_run_built
      AdamP_run_iterations AdamP_run_length_step AdamP_run_built AdaMod_run_iterations
      map_replicate_const)

theorem get_config_step_is_iterations_witness:
  "built AdaBound_example \<and> built AdamP_example
   \<and> step_field (AdaBound_get_config (AdaBound_run AdaBound_example [(Dense [2], 0, [1], 1)])
        Map.empty) = Some (Cfg_list [Cfg_int 0])
   \<and> step_field (AdamP_get_config
        (AdamP_run AdamP_example [(float_other, [2], 0, [1], [1], 1)]) Map.empty)
       = Some (Cfg_list [Cfg_int 0])
   \<and> AdaMod_get_config (AdaMod_run AdaMod_example [(Dense [2], 0, [1], 1)]) Map.empty ''step''
     = Some (Cfg_int 0)"
  using get_config_step_is_iterations [of AdaBound_example AdamP_example
      "[(Dense [2], 0, [1], 1)]" Map.empty "[(float_other, [2], 0, [1], [1], 1)]"
      AdaMod_example "[(Dense [2], 0, [1], 1)]"]
  by (simp add: AdaBound_example_eq AdamP_example_eq AdaMod_example_eq)

text \<open>
  The claim as stated fails. After build and one update_step for the only parameter of an
  AdaBound optimizer the counter of the parameter is 1 and the "step" field is the list
  of the one entry 0. After one training step over the two parameters of an AdaMod
  optimizer the shared counter is 2 and the "step" field is 0, and it is 1 once the host
  has counted the training step in \<open>iterations\<close>.
\<close>

theorem get_config_step_counterexample:
  "fst (AdaBound_update_step AdaBound_example (Dense [2]) 0 [1] 1) = Returned
   \<and> AdaBound.step (fst (snd (AdaBound_update_step AdaBound_example (Dense [2]) 0 [1] 1))) = [1]
   \<and> step_field (AdaBound_get_config
        (fst (snd (AdaBound_update_step AdaBound_example (Dense [2]) 0 [1] 1))) Map.empty)
       = Some (Cfg_list [Cfg_int 0])
   \<and> AdaMod.step (AdaMod_run AdaMod_example [(Dense [2], 0, [1], 1), (Dense [2], 1, [1], 1)]) = 2
   \<and> AdaMod_get_config
        (AdaMod_run AdaMod_example [(Dense [2], 0, [1], 1), (Dense [2], 1, [1], 1)])
        Map.empty ''step'' = Some (Cfg_int 0)
   \<and> AdaMod_get_config
        ((AdaMod_run AdaMod_example [(Dense [2], 0, [1], 1), (Dense [2], 1, [1], 1)])
           \<lparr>iterations := 1\<rparr>)
        Map.empty ''step'' = Some (Cfg_int 1)"
  by (simp add: AdaBound_example_eq AdaBound_defs AdaBound_get_config_def step_field_def
      AdaMod_example_eq AdaMod_defs AdaMod_get_config_def tensor_defs)

text \<open>
  C4. update_step of AdaBound and of AdaMod tests the gradient with
  \<^verbatim>\<open>tf.keras.backend.is_sparse\<close>. For a \<^verbatim>\<open>tf.SparseTensor\<close> the call raises the error
  for unsupported gradients (a RuntimeError) and leaves the whole optimizer state and the
  parameter as they were, and with a dense gradient it does not raise that error. The
  test is false for a \<^verbatim>\<open>tf.IndexedSlices\<close>, the sparse gradient that TensorFlow gives
  for a lookup, and there the code does not do what the claim asks of it: on the built
  examples, which have no weight decay, the call counts the step (line 97 of adabound.py,
  line 88 of adamod.py) and then raises TypeError at the product of a Python float and
  the slices (line 103, line 91). The error is not the one for unsupported gradients and
  the step counter is not what it was.
\<close>

theorem indexed_slices_not_rejected:
  "AdaBound_update_step a (Sparse sp) i p lr = (Raised RuntimeError, a, p)
   \<and> AdaMod_update_step m (Sparse sp) i p lr = (Raised RuntimeError, m, p)
   \<and> fst (AdaBound_update_step a (Dense g) i p lr) \<noteq> Raised RuntimeError
   \<and> fst (AdaMod_update_step m (Dense g) i p lr) \<noteq> Raised RuntimeError
   \<and> AdaBound.step AdaBound_example = [0]
   \<and> AdaBound_update_step AdaBound_example (IndexedSlices [2]) 0 [1] 1 =
       (Raised TypeError, AdaBound_example\<lparr>AdaBound.step := [1]\<rparr>, [1])
   \<and> AdaMod.step AdaMod_example = 0
   \<and> AdaMod_update_step AdaMod_example (IndexedSlices [2]) 0 [1] 1 =
       (Raised TypeError, AdaMod_example\<lparr>AdaMod.step := 1\<rparr>, [1])"
proof -
  have "AdaBound_update_step a (Sparse sp) i p lr = (Raised RuntimeError, a, p)"
    "AdaMod_update_step m (Sparse sp) i p lr = (Raised RuntimeError, m, p)"
    by (simp_all add: AdaBound_update_step_def AdaMod_update_step_def)
  moreover have "AdaBound.step AdaBound_example = [0]"
    "AdaBound_update_step AdaBound_example (IndexedSlices [2]) 0 [1] 1 =
       (Raised TypeError, AdaBound_example\<lparr>AdaBound.step := [1]\<rparr>, [1])"
    by (simp_all add: AdaBound_example_eq AdaBound_update_step_def AdaBound_lookup_def
        AdaBound_count_def)
  moreover have "AdaMod.step AdaMod_example = 0"
    "AdaMod_update_step AdaMod_example (IndexedSlices [2]) 0 [1] 1 =
       (Raised TypeError, AdaMod_example\<lparr>AdaMod.step := 1\<rparr>, [1])"
    by (simp_all add: AdaMod_example_eq AdaMod_update_step_def AdaMod_lookup_def)
  ultimately show ?thesis
    by (simp add: AdaBound_dense_not_RuntimeError AdaMod_dense_not_RuntimeError)
qed

text \<open>
  C5, as amended. A step counter never decreases. Every update_step call of AdaBound and
  of AdamP that finds the slot of its parameter (for AdaBound with a dense gradient) adds
  exactly 1 to the counter of that parameter and leaves every other counter. AdaMod has
  one counter for all parameters, and every update_step call of AdaMod with a dense
  gradient that finds the slot of its parameter adds exactly 1 to it: a training step that
  updates \<open>n\<close> parameters advances the counter by \<open>n\<close>.
\<close>

theorem step_counters:
  "(AdaBound_lookup a i = None \<longrightarrow>
      AdaBound.step (fst (snd (AdaBound_update_step a (Dense g) i v lr))) =
        (AdaBound.step a)[i := AdaBound.step a ! i + 1])
   \<and> (AdamP_lookup p i = None \<longrightarrow>
      AdamP.step (fst (snd (AdamP_update_step p dt g i sh v lr))) =
        (AdamP.step p)[i := AdamP.step p ! i + 1])
   \<and> (AdaMod_lookup m i = None \<longrightarrow>
      AdaMod.step (fst (snd (AdaMod_update_step m (Dense g) i v lr))) = AdaMod.step m + 1)
   \<and> length (AdaBound.step (fst (snd (AdaBound_update_step a gr i v lr)))) = length (AdaBound.step a)
   \<and> (\<forall>j<length (AdaBound.step a).
         AdaBound.step a ! j \<le> AdaBound.step (fst (snd (AdaBound_update_step a gr i v lr))) ! j)
   \<and> length (AdamP.step (fst (snd (AdamP_update_step p dt g i sh v lr)))) = length (AdamP.step p)
   \<and> (\<forall>j<length (AdamP.step p).
         AdamP.step p ! j \<le> AdamP.step (fst (snd (AdamP_update_step p dt g i sh v lr))) ! j)
   \<and> AdaMod.step m \<le> AdaMod.step (fst (snd (AdaMod_update_step m gr i v lr)))"
  by (simp add: AdaBound_update_step_dense_state AdaBound_denom_fields AdaBound_moments_fields
      AdamP_update_step_found_step AdaMod_update_step_dense_step
      AdaBound_update_step_length_step AdaBound_update_step_step_mono
      AdamP_update_step_length_step AdamP_update_step_step_mono AdaMod_update_step_step_mono)

theorem step_counters_witness:
  "AdaBound_lookup AdaBound_example 0 = None
   \<and> AdaBound.step (fst (snd (AdaBound_update_step AdaBound_example (Dense [2]) 0 [1] 1))) = [1]
   \<and> AdamP_lookup AdamP_example 0 = None
   \<and> AdamP.step (fst (snd (AdamP_update_step AdamP_example float_other [2] 0 [1] [1] 1))) = [1]
   \<and> AdaMod_lookup AdaMod_example 0 = None
   \<and> AdaMod.step (fst (snd (AdaMod_update_step AdaMod_example (Dense [2]) 0 [1] 1))) = 1"
  using step_counters [of AdaBound_example 0 "[2]" "[1]" 1 AdamP_example float_other "[1]"
      AdaMod_example "Dense [2]"]
  by (simp add: AdaBound_example_eq AdamP_example_eq AdaMod_example_eq
      AdaBound_lookup_def AdamP_lookup_def AdaMod_lookup_def)

text \<open>
  The claim as stated fails for AdaMod: one training step over the two parameters of an
  AdaMod optimizer is two update_step calls, both return, and the shared counter goes
  from 0 to 2.
\<close>

theorem AdaMod_step_counterexample:
  "AdaMod.step AdaMod_example = 0
   \<and> fst (AdaMod_update_step AdaMod_example (Dense [2]) 0 [1] 1) = Returned
   \<and> fst (AdaMod_update_step (fst (snd (AdaMod_update_step AdaMod_example (Dense [2]) 0 [1] 1)))
            (Dense [2]) 1 [1] 1) = Returned
   \<and> AdaMod.step (fst (snd (AdaMod_update_step
        (fst (snd (AdaMod_update_step AdaMod_example (Dense [2]) 0 [1] 1)))
        (Dense [2]) 1 [1] 1))) = 2"
  by (simp add: AdaMod_example_eq AdaMod_defs tensor_defs)

text \<open>
  C6. For a positive learning rate, \<open>gamma\<close>, \<open>final_lr\<close> and \<open>base_lr\<close>, the lower bound
  of AdaBound does not decrease and, from step 1 on, the upper bound does not increase
  when the step grows; from step 1 on both bounds exist and the lower bound is at most
  the upper bound.
\<close>

theorem bounds_monotone:
  assumes "0 < lr" "0 < gam" "0 < flr" "0 < blr" "s \<le> t"
  shows "\<exists>ls lt. lower_bound (flr * lr / blr) gam s = Inr ls
           \<and> lower_bound (flr * lr / blr) gam t = Inr lt \<and> ls \<le> lt
           \<and> (1 \<le> s \<longrightarrow>
                (\<exists>us ut. upper_bound (flr * lr / blr) gam s = Inr us
                   \<and> upper_bound (flr * lr / blr) gam t = Inr ut
                   \<and> ut \<le> us \<and> ls \<le> us \<and> lt \<le> ut))"
proof -
  define f where "f = flr * lr / blr"
  have f: "0 \<le> f" using assms by (simp add: f_def)
  have ps: "0 < gam * real s + 1" and pt: "0 < gam * real t + 1"
    using assms by (simp_all add: add_nonneg_pos)
  have st: "gam * real s + 1 \<le> gam * real t + 1" using assms by simp
  have q: "1 / (gam * real t + 1) \<le> 1 / (gam * real s + 1)"
    using ps st by (simp add: frac_le)
  have l: "f * (1 - 1 / (gam * real s + 1)) \<le> f * (1 - 1 / (gam * real t + 1))"
    using f q by (intro mult_left_mono) simp_all
  have u: "f * (1 + 1 / (gam * real t)) \<le> f * (1 + 1 / (gam * real s))
           \<and> f * (1 - 1 / (gam * real s + 1)) \<le> f * (1 + 1 / (gam * real s))
           \<and> f * (1 - 1 / (gam * real t + 1)) \<le> f * (1 + 1 / (gam * real t))"
    if "1 \<le> s"
  proof -
    have s0: "0 < gam * real s" and t0: "0 < gam * real t" using that assms by simp_all
    have "gam * real s \<le> gam * real t" using assms by simp
    then have a: "1 / (gam * real t) \<le> 1 / (gam * real s)"
      using s0 by (simp add: frac_le)
    have b: "0 \<le> 1 / (gam * real s + 1)" "0 \<le> 1 / (gam * real s)"
       "0 \<le> 1 / (gam * real t + 1)" "0 \<le> 1 / (gam * real t)"
      using ps pt s0 t0 by simp_all
    have "f * (1 + 1 / (gam * real t)) \<le> f * (1 + 1 / (gam * real s))"
      using f a by (intro mult_left_mono) simp_all
    moreover have "f * (1 - 1 / (gam * real s + 1)) \<le> f * (1 + 1 / (gam * real s))"
      using f b by (intro mult_left_mono) linarith+
    moreover have "f * (1 - 1 / (gam * real t + 1)) \<le> f * (1 + 1 / (gam * real t))"
      using f b by (intro mult_left_mono) linarith+
    ultimately show ?thesis by simp
  qed
  have us: "upper_bound f gam s = Inr (f * (1 + 1 / (gam * real s)))"
    and ut: "upper_bound f gam t = Inr (f * (1 + 1 / (gam * real t)))" if "1 \<le> s"
    using that assms by (simp_all add: upper_bound_Inr)
  have ls: "lower_bound f gam s = Inr (f * (1 - 1 / (gam * real s + 1)))"
    and lt: "lower_bound f gam t = Inr (f * (1 - 1 / (gam * real t + 1)))"
    using ps pt by (simp_all add: lower_bound_Inr)
  show ?thesis
    unfolding f_def [symmetric] using l u us ut ls lt by simp
qed

theorem bounds_monotone_witness:
  "(0::real) < 1 \<and> (1::nat) \<le> 2
   \<and> lower_bound (1 * 1 / 1) 1 1 = Inr (1/2) \<and> lower_bound (1 * 1 / 1) 1 2 = Inr (2/3)
   \<and> upper_bound (1 * 1 / 1) 1 1 = Inr 2 \<and> upper_bound (1 * 1 / 1) 1 2 = Inr (3/2)
   \<and> (1/2::real) \<le> 2/3 \<and> (3/2::real) \<le> 2"
  using bounds_monotone [of 1 1 1 1 1 2]
  by (simp add: lower_bound_def upper_bound_def py_div_def)

text \<open>
  C7. In update_step of AdaMod the step size of every element after the cap, the minimum
  of the raw step size and of the average \<open>beta3 * exp_avg_lr + (1 - beta3) * raw\<close> just
  written, is at most the raw step size.
\<close>

theorem momental_bound_cap:
  "\<forall>k<length (snd (momental_bound b3 avg_lr raw)).
      snd (momental_bound b3 avg_lr raw) ! k \<le> raw ! k
      \<and> (k < length avg_lr \<longrightarrow>
           fst (momental_bound b3 avg_lr raw) ! k = b3 * avg_lr ! k + (1 - b3) * raw ! k
           \<and> snd (momental_bound b3 avg_lr raw) ! k
               = min (raw ! k) (fst (momental_bound b3 avg_lr raw) ! k))"
  by (simp add: momental_bound_def Let_def tensor_defs)

theorem momental_bound_cap_witness:
  "momental_bound (1/2) [2] [4] = ([3], [3]) \<and> (3::real) \<le> 4
   \<and> momental_bound (1/2) [6] [4] = ([5], [4])"
  using momental_bound_cap [of "1/2" "[2]" "[4]"]
  by (simp add: momental_bound_def Let_def tensor_defs)

text \<open>
  C8. When, for the channel view and for the layer view, the largest absolute cosine
  similarity of the rows of the gradient and of the parameter is not below
  \<open>delta / sqrt width\<close> (the test of line 57 is evaluated and is false), projection
  returns the perturbation it was given and the weight decay ratio 1.
\<close>

theorem projection_unchanged:
  assumes "view_test channel_view dt shape p grad dl eps = Inr False"
    and "view_test layer_view dt shape p grad dl eps = Inr False"
  shows "projection dt shape p grad perturb dl wdr eps = Inr (perturb, 1)"
  using assms by (simp add: projection_def)

lemma upt_2: "[0..<2] = [0, 1]"
  by (simp add: upt_rec)

lemma view_test_example:
  "view_test channel_view float_other [2, 2] [1, 1, 1, 1] [1, 1, 1, 1] (1/10) 1 = Inr False"
  "view_test layer_view float_other [2, 2] [1, 1, 1, 1] [1, 1, 1, 1] (1/10) 1 = Inr False"
proof -
  have s: "(1::real) \<le> sqrt 2" by simp
  have a: "\<not> sqrt 2 * 10 < 1"
    using s by linarith
  show "view_test channel_view float_other [2, 2] [1, 1, 1, 1] [1, 1, 1, 1] (1/10) 1 = Inr False"
    using a
    by (simp add: view_test_def apply_view_def reshape_rows_def upt_2 cosine_similarity_def
        cosine_n12_def clip_def convert_to_tensor_def is_integer_def as_float_def clip_max_def
        clip_value_def view_width_def py_div_def
        reduce_max_less_def tf_reduce_sum_def tensor_defs Let_def)
  show "view_test layer_view float_other [2, 2] [1, 1, 1, 1] [1, 1, 1, 1] (1/10) 1 = Inr False"
    by (simp add: view_test_def apply_view_def reshape_rows_def cosine_similarity_def
        cosine_n12_def clip_def convert_to_tensor_def is_integer_def as_float_def clip_max_def
        clip_value_def view_width_def py_div_def
        reduce_max_less_def tf_reduce_sum_def tensor_defs Let_def sqrt_16)
qed

theorem projection_unchanged_witness:
  "view_test channel_view float_other [2, 2] [1, 1, 1, 1] [1, 1, 1, 1] (1/10) 1 = Inr False
   \<and> view_test layer_view float_other [2, 2] [1, 1, 1, 1] [1, 1, 1, 1] (1/10) 1 = Inr False
   \<and> projection float_other [2, 2] [1, 1, 1, 1] [1, 1, 1, 1] [1, 2, 3, 4] (1/10) (1/10) 1
       = Inr ([1, 2, 3, 4], 1)"
  using projection_unchanged [OF view_test_example, of "[1, 2, 3, 4]" "1/10"]
  by (simp add: view_test_example)



text \<open>
  The hypotheses on the dtype are needed. float16 makes 0 of \<^verbatim>\<open>1e-8\<close>, the default of
  \<open>epsilon\<close>, and of its square: the floor under the root of cosine_similarity and the
  addends of \<open>denom\<close> and of the norm are then 0, and so are the tensors the code
  divides by when the moments or the rows are 0.
\<close>

lemma float16_default_epsilon:
  "as_float float16 (1 / 10 ^ 8) = 0
   \<and> cosine_n12 float16 [[0]] [[0]] (1 / 10 ^ 8) = Inr [0]
   \<and> AdamP_denom float16 [0] 1 (1 / 10 ^ 8) = [0]
   \<and> norm_eps float16 [[0]] (1 / 10 ^ 8) = [0]"
  by (simp add: as_float_def cosine_n12_def clip_def convert_to_tensor_def is_integer_def
      clip_max_def clip_value_def AdamP_denom_def norm_eps_def tf_norm_def tf_reduce_sum_def
      tensor_defs Let_def)


text \<open>
  C10. \<^verbatim>\<open>__setstate__\<close> leaves the flag amsbound false whatever the restored mapping
  holds, and no later update_step sets it: in every state a host reaches by update_step
  calls from the restored optimizer the flag is false, \<open>max_exp_avg_sq\<close> is what the
  restore left, and the denominator is taken from \<open>exp_avg_sq\<close>.
\<close>

theorem setstate_amsbound:
  "amsbound (AdaBound_setstate self state) = False
   \<and> amsbound (AdaBound_run (AdaBound_setstate self state) calls) = False
   \<and> max_exp_avg_sq (AdaBound_run (AdaBound_setstate self state) calls) =
       max_exp_avg_sq (AdaBound_setstate self state)
   \<and> AdaBound_denom (AdaBound_run (AdaBound_setstate self state) calls) i =
       (AdaBound_run (AdaBound_setstate self state) calls,
        add_scalar
          (tf_sqrt (AdaBound.exp_avg_sq (AdaBound_run (AdaBound_setstate self state) calls) ! i))
          (AdaBound.epsilon (AdaBound_run (AdaBound_setstate self state) calls)))"
proof -
  have 1: "\<not> amsbound (AdaBound_setstate self state)"
    by (simp add: AdaBound_setstate_def Let_def)
  have 2: "\<not> amsbound (AdaBound_run (AdaBound_setstate self state) calls)"
    using 1 by (simp add: AdaBound_run_amsbound)
  show ?thesis
    using 1 2 by (simp add: AdaBound_run_max_exp_avg_sq AdaBound_denom_def)
qed

theorem setstate_amsbound_witness:
  "amsbound (dict_update AdaBound_example [Set_amsbound True, Set_max_exp_avg_sq [[5]]])
   \<and> \<not> amsbound (AdaBound_setstate AdaBound_example [Set_amsbound True, Set_max_exp_avg_sq [[5]]])
   \<and> max_exp_avg_sq (AdaBound_run
         (AdaBound_setstate AdaBound_example [Set_amsbound True, Set_max_exp_avg_sq [[5]]])
         [(Dense [2], 0, [1], 1)]) = Some [[5]]"
  using setstate_amsbound [of AdaBound_example "[Set_amsbound True, Set_max_exp_avg_sq [[5]]]"
      "[(Dense [2], 0, [1], 1)]" 0]
  by (simp add: AdaBound_setstate_def dict_update_def AdaBound_example_eq Let_def)


end
